theory Spec2Isabelle
  imports
    Complex_Main
    "HOL-Library.AList"
    "HOL-Library.Char_ord"
    "HOL-Library.List_Lexorder"
    "HOL-Library.Multiset"
begin

section \<open>Finance tracker: summary aggregation and export (src/app.py)\<close>

text \<open>
  The development embeds the three read-only routes of \<^verbatim>\<open>src/app.py\<close> that
  transform a user's transaction list: \<^verbatim>\<open>get_summary\<close>, \<^verbatim>\<open>export_excel\<close> and
  \<^verbatim>\<open>export_pdf\<close>. The argument \<open>transactions\<close> of each model is the list the
  route obtains from \<^verbatim>\<open>Transaction.query...all()\<close>.

  Modelling conventions.
  \<^item> \<^verbatim>\<open>amount\<close> is a \<^verbatim>\<open>db.Float\<close> column, a Python \<^verbatim>\<open>float\<close>. The type \<open>double\<close>
    holds the finite values as rationals, the two infinities and NaN; the sign of a
    zero is not kept. Addition, subtraction and \<^verbatim>\<open>round\<close> on it round to the nearest
    binary64 value, ties to even.
  \<^item> The arithmetic of the summary route is a parameter \<open>A\<close>: \<open>float_arith\<close> is the
    arithmetic the program runs with, \<open>exact_arith\<close> computes without rounding error
    and serves the statements made under exact arithmetic.
  \<^item> \<^verbatim>\<open>type\<close> is a \<^verbatim>\<open>db.String(10)\<close> column and stays a string: the code compares
    it with the literals \<^verbatim>\<open>'income'\<close> and \<^verbatim>\<open>'expense'\<close>.
  \<^item> \<^verbatim>\<open>description\<close> is a nullable \<^verbatim>\<open>db.Text\<close> column: \<open>string option\<close>, with
    \<open>None\<close> for Python's \<^verbatim>\<open>None\<close>.
  \<^item> A Python \<^verbatim>\<open>dict\<close> is an association list in insertion order with distinct
    keys; \<open>AList.update\<close> overwrites an existing key in place and appends a new one.
  \<^item> Every Python exception the modelled statements can raise is a value of
    \<open>py_error\<close>; a route returns \<open>py_error + result\<close>.
  \<^item> Strings are compared character by character (\<open>Char_ord\<close>, \<open>List_Lexorder\<close>),
    as Python compares \<^verbatim>\<open>str\<close> values.
\<close>

subsection \<open>Data model\<close>

datatype py_error = KeyError | TypeError | IllegalCharacterError

datatype double = Finite rat | PosInf | NegInf | NaN

text \<open>
  A \<^verbatim>\<open>datetime\<close>. The modelled code reads it through \<^verbatim>\<open>strftime\<close> with the
  directives \<^verbatim>\<open>%Y\<close>, \<^verbatim>\<open>%m\<close> and \<^verbatim>\<open>%d\<close> only, so the time of day is omitted.
\<close>

record datetime =
  dt_year :: nat
  dt_month :: nat
  dt_day :: nat

text \<open>The columns of \<^verbatim>\<open>class Transaction(db.Model)\<close>.\<close>

record transaction =
  tid :: int
  user_id :: int
  type :: string
  category :: string
  amount :: double
  description :: "string option"
  date :: datetime
  created_at :: datetime

subsection \<open>Arithmetic of Python floats\<close>

text \<open>Rounding of a rational to the nearest integer, a tie going to the even one.\<close>

definition round_half_even :: "rat \<Rightarrow> int" where
  "round_half_even y =
     (let f = \<lfloor>y\<rfloor>; d = y - of_int f
      in if d < 1 / 2 then f
         else if 1 / 2 < d then f + 1
         else if even f then f else f + 1)"

text \<open>The number of binary digits of a positive integer (\<^verbatim>\<open>int.bit_length\<close>).\<close>

function bit_length :: "int \<Rightarrow> int" where
  "bit_length n = (if n \<le> 0 then 0 else 1 + bit_length (n div 2))"
  by pat_completeness auto
termination
  by (relation "measure nat") auto

declare bit_length.simps [simp del]

definition pow2 :: "int \<Rightarrow> rat" where
  "pow2 e = (if 0 \<le> e then 2 ^ nat e else 1 / 2 ^ nat (- e))"

text \<open>The integer part of the binary logarithm of a positive rational.\<close>

definition ilog2 :: "rat \<Rightarrow> int" where
  "ilog2 a = (if 1 \<le> a then bit_length \<lfloor>a\<rfloor> - 1 else - bit_length (\<lceil>1 / a\<rceil> - 1))"

text \<open>
  The binary64 value nearest to a rational, ties to even: 53 significant bits, the
  least exponent of the subnormal range \<open>-1074\<close>, overflow to an infinity from
  \<open>2 ^ 1024\<close> on.
\<close>

definition fl :: "rat \<Rightarrow> double" where
  "fl x =
     (if x = 0 then Finite 0
      else
        let a = \<bar>x\<bar>;
            e = max (ilog2 a - 52) (- 1074);
            m = round_half_even (a / pow2 e);
            v = of_int m * pow2 e
        in if 2 ^ 1024 \<le> v then (if x < 0 then NegInf else PosInf)
           else Finite (if x < 0 then - v else v))"

text \<open>\<^verbatim>\<open>x + y\<close> and \<^verbatim>\<open>x - y\<close> on floats.\<close>

fun float_add :: "double \<Rightarrow> double \<Rightarrow> double" where
  "float_add (Finite x) (Finite y) = fl (x + y)"
| "float_add NaN _ = NaN"
| "float_add _ NaN = NaN"
| "float_add PosInf NegInf = NaN"
| "float_add NegInf PosInf = NaN"
| "float_add PosInf _ = PosInf"
| "float_add _ PosInf = PosInf"
| "float_add NegInf _ = NegInf"
| "float_add _ NegInf = NegInf"

fun float_sub :: "double \<Rightarrow> double \<Rightarrow> double" where
  "float_sub (Finite x) (Finite y) = fl (x - y)"
| "float_sub NaN _ = NaN"
| "float_sub _ NaN = NaN"
| "float_sub PosInf PosInf = NaN"
| "float_sub NegInf NegInf = NaN"
| "float_sub PosInf _ = PosInf"
| "float_sub _ PosInf = NegInf"
| "float_sub NegInf _ = NegInf"
| "float_sub _ NegInf = PosInf"

text \<open>
  \<^verbatim>\<open>round(x, 2)\<close> on a float: the exact value is rounded to the nearest multiple of
  \<open>1/100\<close>, ties to even, and the float nearest to that decimal is returned; an
  infinity and NaN are returned unchanged.
\<close>

fun float_round2 :: "double \<Rightarrow> double" where
  "float_round2 (Finite x) = fl (of_int (round_half_even (x * 100)) / 100)"
| "float_round2 d = d"

text \<open>The same three operations without rounding to binary64.\<close>

fun exact_add :: "double \<Rightarrow> double \<Rightarrow> double" where
  "exact_add (Finite x) (Finite y) = Finite (x + y)"
| "exact_add NaN _ = NaN"
| "exact_add _ NaN = NaN"
| "exact_add PosInf NegInf = NaN"
| "exact_add NegInf PosInf = NaN"
| "exact_add PosInf _ = PosInf"
| "exact_add _ PosInf = PosInf"
| "exact_add NegInf _ = NegInf"
| "exact_add _ NegInf = NegInf"

fun exact_sub :: "double \<Rightarrow> double \<Rightarrow> double" where
  "exact_sub (Finite x) (Finite y) = Finite (x - y)"
| "exact_sub NaN _ = NaN"
| "exact_sub _ NaN = NaN"
| "exact_sub PosInf PosInf = NaN"
| "exact_sub NegInf NegInf = NaN"
| "exact_sub PosInf _ = PosInf"
| "exact_sub _ PosInf = NegInf"
| "exact_sub NegInf _ = NegInf"
| "exact_sub _ NegInf = PosInf"

fun exact_round2 :: "double \<Rightarrow> double" where
  "exact_round2 (Finite x) = Finite (of_int (round_half_even (x * 100)) / 100)"
| "exact_round2 d = d"

text \<open>
  The class operations \<open>0\<close> and \<open>+\<close> on \<open>double\<close> are the exact ones, so that the
  library's \<open>sum_list\<close> is the exact sum of a list.
\<close>

instantiation double :: comm_monoid_add
begin

definition zero_double :: double where
  "zero_double = Finite 0"

definition plus_double :: "double \<Rightarrow> double \<Rightarrow> double" where
  "plus_double a b = exact_add a b"

instance
proof
  fix a b c :: double
  show "a + b + c = a + (b + c)"
    unfolding plus_double_def by (cases a; cases b; cases c) simp_all
  show "a + b = b + a"
    unfolding plus_double_def by (cases a; cases b) simp_all
  show "0 + a = a"
    unfolding plus_double_def zero_double_def by (cases a) simp_all
qed

end

record arith =
  ar_add :: "double \<Rightarrow> double \<Rightarrow> double"
  ar_sub :: "double \<Rightarrow> double \<Rightarrow> double"
  ar_round2 :: "double \<Rightarrow> double"

definition float_arith :: arith where
  "float_arith = \<lparr>ar_add = float_add, ar_sub = float_sub, ar_round2 = float_round2\<rparr>"

definition exact_arith :: arith where
  "exact_arith = \<lparr>ar_add = exact_add, ar_sub = exact_sub, ar_round2 = exact_round2\<rparr>"

subsection \<open>Python primitives used by the routes\<close>

text \<open>
  \<^verbatim>\<open>sum(iterable)\<close>: starts from \<^verbatim>\<open>0\<close> and adds the items from left to right (the
  plain accumulation of CPython up to 3.11).
\<close>

definition py_sum :: "arith \<Rightarrow> double list \<Rightarrow> double" where
  "py_sum A xs = foldl (ar_add A) (Finite 0) xs"

text \<open>Decimal digits of a natural number, most significant first.\<close>

definition digit_char :: "nat \<Rightarrow> char" where
  "digit_char n = ''0123456789'' ! (n mod 10)"

fun digits :: "nat \<Rightarrow> string" where
  "digits n =
     (if n < 10 then [digit_char n]
      else digits (n div 10) @ [digit_char (n mod 10)])"

declare digits.simps [simp del]

text \<open>Zero padding on the left up to a width \<open>w\<close>, as \<^verbatim>\<open>%m\<close> and \<^verbatim>\<open>%d\<close> do.\<close>

definition zero_pad :: "nat \<Rightarrow> nat \<Rightarrow> string" where
  "zero_pad w n = replicate (w - length (digits n)) CHR ''0'' @ digits n"

text \<open>
  \<^verbatim>\<open>d.strftime('%Y-%m')\<close>, \<^verbatim>\<open>d.strftime('%Y-%m-%d')\<close> and \<^verbatim>\<open>d.strftime('%Y%m%d')\<close>.
  CPython hands \<^verbatim>\<open>%Y\<close> to the C library, and glibc writes the year without padding:
  four digits from the year 1000 on, fewer before.
\<close>

definition strftime_Ym :: "datetime \<Rightarrow> string" where
  "strftime_Ym d = digits (dt_year d) @ ''-'' @ zero_pad 2 (dt_month d)"

definition strftime_Ymd :: "datetime \<Rightarrow> string" where
  "strftime_Ymd d =
     digits (dt_year d) @ ''-'' @ zero_pad 2 (dt_month d) @ ''-'' @ zero_pad 2 (dt_day d)"

definition strftime_Ymd_compact :: "datetime \<Rightarrow> string" where
  "strftime_Ymd_compact d =
     digits (dt_year d) @ zero_pad 2 (dt_month d) @ zero_pad 2 (dt_day d)"

text \<open>\<^verbatim>\<open>d[k]\<close> on a dict: \<^verbatim>\<open>KeyError\<close> when the key is absent.\<close>

definition dict_getitem :: "('k \<times> 'v) list \<Rightarrow> 'k \<Rightarrow> py_error + 'v" where
  "dict_getitem d k = (case map_of d k of None \<Rightarrow> Inl KeyError | Some v \<Rightarrow> Inr v)"

text \<open>\<^verbatim>\<open>d.get(k, default)\<close>.\<close>

definition dict_get :: "('k \<times> 'v) list \<Rightarrow> 'k \<Rightarrow> 'v \<Rightarrow> 'v" where
  "dict_get d k dflt = (case map_of d k of None \<Rightarrow> dflt | Some v \<Rightarrow> v)"

text \<open>\<^verbatim>\<open>xs[-12:]\<close>: the last twelve items, or all of them when there are fewer.\<close>

definition last12 :: "'a list \<Rightarrow> 'a list" where
  "last12 xs = (if 12 < length xs then drop (length xs - 12) xs else xs)"

subsection \<open>The summary route: \<^verbatim>\<open>get_summary\<close>\<close>

text \<open>Lines 327 to 329: the three locals before they are rounded.\<close>

definition total_income :: "arith \<Rightarrow> transaction list \<Rightarrow> double" where
  "total_income A transactions = py_sum A [amount t. t \<leftarrow> transactions, type t = ''income'']"

definition total_expense :: "arith \<Rightarrow> transaction list \<Rightarrow> double" where
  "total_expense A transactions = py_sum A [amount t. t \<leftarrow> transactions, type t = ''expense'']"

definition balance :: "arith \<Rightarrow> transaction list \<Rightarrow> double" where
  "balance A transactions = ar_sub A (total_income A transactions) (total_expense A transactions)"

text \<open>Lines 332 to 335: one pass of the loop body, then the loop.\<close>

definition category_step ::
  "arith \<Rightarrow> (string \<times> double) list \<Rightarrow> transaction \<Rightarrow> (string \<times> double) list" where
  "category_step A category_spending t =
     (if type t = ''expense''
      then AList.update (category t)
             (ar_add A (dict_get category_spending (category t) (Finite 0)) (amount t))
             category_spending
      else category_spending)"

definition category_spending :: "arith \<Rightarrow> transaction list \<Rightarrow> (string \<times> double) list" where
  "category_spending A transactions = foldl (category_step A) [] transactions"

text \<open>
  Lines 338 to 347. The inner dict \<^verbatim>\<open>{'income': 0, 'expense': 0}\<close> is a record;
  \<^verbatim>\<open>monthly_data[month_key]['income'] += t.amount\<close> reads the entry (a
  \<^verbatim>\<open>KeyError\<close> if it were absent) and stores the updated one under the same key.
\<close>

record month_totals =
  income :: double
  expense :: double

definition monthly_step ::
  "arith \<Rightarrow> (string \<times> month_totals) list \<Rightarrow> transaction
     \<Rightarrow> py_error + (string \<times> month_totals) list" where
  "monthly_step A monthly_data t =
     (let month_key = strftime_Ym (date t);
          monthly_data' =
            (if month_key \<notin> set (map fst monthly_data)
             then AList.update month_key \<lparr>income = Finite 0, expense = Finite 0\<rparr> monthly_data
             else monthly_data)
      in case dict_getitem monthly_data' month_key of
           Inl e \<Rightarrow> Inl e
         | Inr entry \<Rightarrow>
             if type t = ''income''
             then Inr (AList.update month_key
                         (entry\<lparr>income := ar_add A (income entry) (amount t)\<rparr>) monthly_data')
             else Inr (AList.update month_key
                         (entry\<lparr>expense := ar_add A (expense entry) (amount t)\<rparr>) monthly_data'))"

fun monthly_loop ::
  "arith \<Rightarrow> (string \<times> month_totals) list \<Rightarrow> transaction list
     \<Rightarrow> py_error + (string \<times> month_totals) list" where
  "monthly_loop A monthly_data [] = Inr monthly_data"
| "monthly_loop A monthly_data (t # ts) =
     (case monthly_step A monthly_data t of
        Inl e \<Rightarrow> Inl e
      | Inr monthly_data' \<Rightarrow> monthly_loop A monthly_data' ts)"

text \<open>Line 350: \<^verbatim>\<open>sorted(monthly_data.keys())[-12:]\<close>.\<close>

definition sorted_months :: "(string \<times> month_totals) list \<Rightarrow> string list" where
  "sorted_months monthly_data = last12 (sort (map fst monthly_data))"

text \<open>Lines 351 to 358: the list comprehension over \<^verbatim>\<open>sorted_months\<close>.\<close>

record monthly_row = month_totals +
  month :: string

fun monthly_rows :: "(string \<times> month_totals) list \<Rightarrow> string list \<Rightarrow> py_error + monthly_row list" where
  "monthly_rows monthly_data [] = Inr []"
| "monthly_rows monthly_data (m # ms) =
     (case dict_getitem monthly_data m of
        Inl e \<Rightarrow> Inl e
      | Inr entry \<Rightarrow>
          (case monthly_rows monthly_data ms of
             Inl e \<Rightarrow> Inl e
           | Inr rows \<Rightarrow> Inr (\<lparr>income = income entry, expense = expense entry, month = m\<rparr> # rows)))"

text \<open>Lines 360 to 367: the JSON body of the response.\<close>

record summary_report =
  r_total_income :: double
  r_total_expense :: double
  r_balance :: double
  r_category_spending :: "(string \<times> double) list"
  r_monthly_summary :: "monthly_row list"
  r_transaction_count :: nat

definition get_summary :: "arith \<Rightarrow> transaction list \<Rightarrow> py_error + summary_report" where
  "get_summary A transactions =
     (case monthly_loop A [] transactions of
        Inl e \<Rightarrow> Inl e
      | Inr monthly_data \<Rightarrow>
          (case monthly_rows monthly_data (sorted_months monthly_data) of
             Inl e \<Rightarrow> Inl e
           | Inr monthly_summary \<Rightarrow>
               Inr \<lparr>r_total_income = ar_round2 A (total_income A transactions),
                    r_total_expense = ar_round2 A (total_expense A transactions),
                    r_balance = ar_round2 A (balance A transactions),
                    r_category_spending = category_spending A transactions,
                    r_monthly_summary = monthly_summary,
                    r_transaction_count = length transactions\<rparr>))"

subsection \<open>String formatting used by the exports\<close>

text \<open>
  \<^verbatim>\<open>str.capitalize()\<close>: the first character in upper case, the others in lower
  case. The tables cover the ASCII letters; any other character is left as it is.
\<close>

definition ascii_upper :: "char \<Rightarrow> char" where
  "ascii_upper c =
     (case map_of (zip ''abcdefghijklmnopqrstuvwxyz'' ''ABCDEFGHIJKLMNOPQRSTUVWXYZ'') c of
        None \<Rightarrow> c | Some u \<Rightarrow> u)"

definition ascii_lower :: "char \<Rightarrow> char" where
  "ascii_lower c =
     (case map_of (zip ''ABCDEFGHIJKLMNOPQRSTUVWXYZ'' ''abcdefghijklmnopqrstuvwxyz'') c of
        None \<Rightarrow> c | Some l \<Rightarrow> l)"

definition capitalize :: "string \<Rightarrow> string" where
  "capitalize s = (case s of [] \<Rightarrow> [] | c # cs \<Rightarrow> ascii_upper c # map ascii_lower cs)"

text \<open>
  The format specification \<^verbatim>\<open>,.2f\<close>: two decimals (ties to even), a comma between
  groups of three digits of the integer part, a minus sign for a negative value;
  \<^verbatim>\<open>inf\<close>, \<^verbatim>\<open>-inf\<close> and \<^verbatim>\<open>nan\<close> for the values that are not finite.
\<close>

function group_thousands :: "string \<Rightarrow> string" where
  "group_thousands s =
     (if length s \<le> 3 then s
      else group_thousands (take (length s - 3) s) @ '','' @ drop (length s - 3) s)"
  by pat_completeness auto
termination
  by (relation "measure length") auto

declare group_thousands.simps [simp del]

fun format_money :: "double \<Rightarrow> string" where
  "format_money (Finite x) =
     (let n = nat (round_half_even (\<bar>x\<bar> * 100))
      in (if x < 0 then ''-'' else []) @ group_thousands (digits (n div 100)) @ ''.''
           @ zero_pad 2 (n mod 100))"
| "format_money PosInf = ''inf''"
| "format_money NegInf = ''-inf''"
| "format_money NaN = ''nan''"

subsection \<open>The spreadsheet route: \<^verbatim>\<open>export_excel\<close>\<close>

text \<open>
  Lines 377 to 407. The model follows the two data frames into \<^verbatim>\<open>to_excel\<close> as far
  as the cell values openpyxl accepts: a string cell is cut to 32767 characters and
  refused with \<^verbatim>\<open>IllegalCharacterError\<close> when it then holds a control character
  other than tab, line feed and carriage return. The encoding of the workbook is
  not modelled. A data frame built from a list of dicts takes its columns from the
  dicts' keys, so an empty list gives a frame with no column. \<open>now\<close> stands for
  \<^verbatim>\<open>datetime.now()\<close>.
\<close>

definition illegal_character :: "char \<Rightarrow> bool" where
  "illegal_character c =
     (let n = (of_char c :: nat) in n \<le> 8 \<or> n = 11 \<or> n = 12 \<or> (14 \<le> n \<and> n \<le> 31))"

definition check_string :: "string \<Rightarrow> py_error + string" where
  "check_string s =
     (if list_ex illegal_character (take 32767 s) then Inl IllegalCharacterError
      else Inr (take 32767 s))"

record excel_row =
  Date :: string
  Type :: string
  Category :: string
  Amount :: double
  Description :: "string option"

record 'r data_frame =
  columns :: "string list"
  rows :: "'r list"

record excel_export =
  transactions_sheet :: "excel_row data_frame"
  summary_sheet :: "(string \<times> double) data_frame"
  xlsx_download_name :: string

definition excel_data :: "transaction list \<Rightarrow> excel_row list" where
  "excel_data transactions =
     map (\<lambda>t. \<lparr>Date = strftime_Ymd (date t), Type = capitalize (type t),
                Category = category t, Amount = amount t, Description = description t\<rparr>)
       transactions"

text \<open>Writing one row: the string cells pass through \<open>check_string\<close>, an empty cell stays empty.\<close>

definition write_row :: "excel_row \<Rightarrow> py_error + excel_row" where
  "write_row r =
     (case check_string (Date r) of Inl e \<Rightarrow> Inl e | Inr d \<Rightarrow>
      case check_string (Type r) of Inl e \<Rightarrow> Inl e | Inr ty \<Rightarrow>
      case check_string (Category r) of Inl e \<Rightarrow> Inl e | Inr c \<Rightarrow>
      case Description r of
        None \<Rightarrow> Inr \<lparr>Date = d, Type = ty, Category = c, Amount = Amount r, Description = None\<rparr>
      | Some s \<Rightarrow>
          (case check_string s of Inl e \<Rightarrow> Inl e | Inr s' \<Rightarrow>
             Inr \<lparr>Date = d, Type = ty, Category = c, Amount = Amount r, Description = Some s'\<rparr>))"

fun write_rows :: "excel_row list \<Rightarrow> py_error + excel_row list" where
  "write_rows [] = Inr []"
| "write_rows (r # rs) =
     (case write_row r of
        Inl e \<Rightarrow> Inl e
      | Inr r' \<Rightarrow> (case write_rows rs of Inl e \<Rightarrow> Inl e | Inr rs' \<Rightarrow> Inr (r' # rs')))"

definition summary_data :: "transaction list \<Rightarrow> string list \<times> double list" where
  "summary_data transactions =
     ([''Total Income'', ''Total Expense'', ''Balance''],
      [py_sum float_arith [amount t. t \<leftarrow> transactions, type t = ''income''],
       py_sum float_arith [amount t. t \<leftarrow> transactions, type t = ''expense''],
       float_sub (py_sum float_arith [amount t. t \<leftarrow> transactions, type t = ''income''])
         (py_sum float_arith [amount t. t \<leftarrow> transactions, type t = ''expense''])])"

definition export_excel :: "datetime \<Rightarrow> transaction list \<Rightarrow> py_error + excel_export" where
  "export_excel now transactions =
     (let data = excel_data transactions
      in case write_rows data of
           Inl e \<Rightarrow> Inl e
         | Inr written \<Rightarrow>
             Inr \<lparr>transactions_sheet =
                    \<lparr>columns = (case data of [] \<Rightarrow> []
                                | _ # _ \<Rightarrow> [''Date'', ''Type'', ''Category'', ''Amount'', ''Description'']),
                     rows = written\<rparr>,
                  summary_sheet =
                    \<lparr>columns = [''Metric'', ''Value''],
                     rows = zip (fst (summary_data transactions)) (snd (summary_data transactions))\<rparr>,
                  xlsx_download_name = ''transactions_'' @ strftime_Ymd_compact now @ ''.xlsx''\<rparr>)"

subsection \<open>The PDF route: \<^verbatim>\<open>export_pdf\<close>\<close>

text \<open>
  Line 462, the Description cell:
  \<^verbatim>\<open>t.description[:30] + '...' if len(t.description) > 30 else t.description\<close>.
  The condition is evaluated first, and \<^verbatim>\<open>len(None)\<close> raises \<^verbatim>\<open>TypeError\<close>.
\<close>

definition pdf_description :: "string option \<Rightarrow> py_error + string" where
  "pdf_description d =
     (case d of
        None \<Rightarrow> Inl TypeError
      | Some s \<Rightarrow> Inr (if 30 < length s then take 30 s @ ''...'' else s))"

text \<open>Lines 456 to 463: the loop that appends one row per transaction.\<close>

fun pdf_rows :: "transaction list \<Rightarrow> py_error + string list list" where
  "pdf_rows [] = Inr []"
| "pdf_rows (t # ts) =
     (case pdf_description (description t) of
        Inl e \<Rightarrow> Inl e
      | Inr d \<Rightarrow>
          (case pdf_rows ts of
             Inl e \<Rightarrow> Inl e
           | Inr rest \<Rightarrow>
               Inr ([strftime_Ymd (date t), capitalize (type t), category t,
                     ''$'' @ format_money (amount t), d] # rest)))"

text \<open>
  Lines 434 to 487. The model stops at the flowables handed to \<^verbatim>\<open>doc.build\<close>:
  the title, the summary paragraph and the table data (header row first). Page
  layout, column widths and the table style are reportlab's and are constants of
  the code. \<open>name\<close> stands for \<^verbatim>\<open>current_user.name\<close> and is taken to be plain text
  (reportlab reads the title as markup and refuses a malformed one); \<open>now\<close> stands
  for \<^verbatim>\<open>datetime.now()\<close>.
\<close>

record pdf_export =
  title :: string
  summary_text :: string
  data :: "string list list"
  pdf_download_name :: string

definition pdf_summary_text :: "datetime \<Rightarrow> transaction list \<Rightarrow> string" where
  "pdf_summary_text now transactions =
     (let total_income = py_sum float_arith [amount t. t \<leftarrow> transactions, type t = ''income''];
          total_expense = py_sum float_arith [amount t. t \<leftarrow> transactions, type t = ''expense''];
          balance = float_sub total_income total_expense;
          nl = [CHR 0x0A]
      in nl @ ''    <b>Summary:</b><br/>'' @ nl
           @ ''    Total Income: $'' @ format_money total_income @ ''<br/>'' @ nl
           @ ''    Total Expense: $'' @ format_money total_expense @ ''<br/>'' @ nl
           @ ''    Balance: $'' @ format_money balance @ ''<br/>'' @ nl
           @ ''    Report Date: '' @ strftime_Ymd now @ nl
           @ ''    '')"

definition export_pdf :: "string \<Rightarrow> datetime \<Rightarrow> transaction list \<Rightarrow> py_error + pdf_export" where
  "export_pdf name now transactions =
     (case pdf_rows transactions of
        Inl e \<Rightarrow> Inl e
      | Inr body \<Rightarrow>
          Inr \<lparr>title = ''Transaction Report - '' @ name,
               summary_text = pdf_summary_text now transactions,
               data = [''Date'', ''Type'', ''Category'', ''Amount'', ''Description''] # body,
               pdf_download_name = ''transactions_'' @ strftime_Ymd_compact now @ ''.pdf''\<rparr>)"

subsection \<open>Reference quantities of the specification\<close>

text \<open>
  The labels of the expense transactions, the month keys of a list, and the entry
  of the monthly series for a key: the sums of the amounts of the transactions
  with that key, an income on one side and every other transaction on the other,
  taken with \<open>py_sum\<close> in the order of the list.
\<close>

definition expense_categories :: "transaction list \<Rightarrow> string set" where
  "expense_categories ts = category ` {t \<in> set ts. type t = ''expense''}"

definition month_keys :: "transaction list \<Rightarrow> string set" where
  "month_keys ts = (\<lambda>t. strftime_Ym (date t)) ` set ts"

definition month_row :: "arith \<Rightarrow> transaction list \<Rightarrow> string \<Rightarrow> monthly_row" where
  "month_row A ts k =
     \<lparr>income = py_sum A (map amount
                 (filter (\<lambda>t. strftime_Ym (date t) = k \<and> type t = ''income'') ts)),
      expense = py_sum A (map amount
                 (filter (\<lambda>t. strftime_Ym (date t) = k \<and> type t \<noteq> ''income'') ts)),
      month = k\<rparr>"

subsection \<open>Auxiliary functions for the proofs\<close>

text \<open>
  The effect of one pass of the monthly loop when no \<^verbatim>\<open>KeyError\<close> occurs;
  \<open>monthly_step_Inr\<close> below shows that this is always the case.
\<close>

definition zero_totals :: month_totals where
  "zero_totals = \<lparr>income = Finite 0, expense = Finite 0\<rparr>"

definition add_to_month :: "arith \<Rightarrow> month_totals \<Rightarrow> transaction \<Rightarrow> month_totals" where
  "add_to_month A e t =
     (if type t = ''income'' then e\<lparr>income := ar_add A (income e) (amount t)\<rparr>
      else e\<lparr>expense := ar_add A (expense e) (amount t)\<rparr>)"

definition month_upd ::
  "arith \<Rightarrow> (string \<times> month_totals) list \<Rightarrow> transaction \<Rightarrow> (string \<times> month_totals) list" where
  "month_upd A d t =
     AList.update (strftime_Ym (date t))
       (add_to_month A (dict_get d (strftime_Ym (date t)) zero_totals) t) d"



subsection \<open>Example inputs\<close>

text \<open>
  Transactions with the given type, category, amount, description and date. An
  amount written \<open>fl q\<close> is the float Python reads from the decimal \<open>q\<close>.
\<close>

definition tx ::
  "string \<Rightarrow> string \<Rightarrow> double \<Rightarrow> string option \<Rightarrow> nat \<Rightarrow> nat \<Rightarrow> nat \<Rightarrow> transaction" where
  "tx ty cat amt desc y m d =
     \<lparr>tid = 0, user_id = 1, type = ty, category = cat, amount = amt, description = desc,
      date = \<lparr>dt_year = y, dt_month = m, dt_day = d\<rparr>,
      created_at = \<lparr>dt_year = y, dt_month = m, dt_day = d\<rparr>\<rparr>"

definition eighth_example :: "transaction list" where
  "eighth_example = [tx ''income'' ''Gift'' (Finite (1 / 8)) (Some ''coin'') 2024 3 1]"


definition null_description_example :: "transaction list" where
  "null_description_example = [tx ''expense'' ''Food'' (Finite 50) None 2024 1 20]"

definition mixed_description_example :: "transaction list" where
  "mixed_description_example =
     [tx ''expense'' ''Food'' (Finite 50) (Some ''lunch'') 2024 1 20,
      tx ''income'' ''Salary'' (Finite 1000) None 2024 1 15]"

definition two_expenses :: "transaction list" where
  "two_expenses =
     [tx ''expense'' ''Food'' (Finite 50) (Some ''lunch'') 2024 1 20,
      tx ''expense'' ''Rent'' (Finite 30) (Some ''flat'') 2024 2 1]"

definition two_months :: "transaction list" where
  "two_months =
     [tx ''income'' ''Salary'' (Finite 1000) (Some ''pay'') 2024 1 15,
      tx ''expense'' ''Food'' (Finite 50) (Some ''lunch'') 2024 1 20,
      tx ''income'' ''Gift'' (Finite 200) (Some ''aunt'') 2024 1 25,
      tx ''expense'' ''Food'' (Finite 30) (Some ''dinner'') 2024 2 1,
      tx ''expense'' ''Rent'' (Finite 700) (Some ''flat'') 2024 2 3]"


definition tenths_expenses :: "transaction list" where
  "tenths_expenses =
     [tx ''expense'' ''A'' (fl (1 / 10)) (Some ''a'') 2024 1 20,
      tx ''expense'' ''B'' (fl (1 / 10)) (Some ''b'') 2024 1 21,
      tx ''expense'' ''A'' (fl (2 / 5)) (Some ''c'') 2024 1 22]"

definition tenths_food :: "transaction list" where
  "tenths_food =
     [tx ''expense'' ''Food'' (fl (1 / 10)) (Some ''a'') 2024 1 20,
      tx ''expense'' ''Food'' (fl (1 / 5)) (Some ''b'') 2024 1 21]"

definition tenths_incomes :: "transaction list" where
  "tenths_incomes =
     [tx ''income'' ''Salary'' (fl (1 / 10)) (Some ''a'') 2024 1 20,
      tx ''income'' ''Salary'' (fl (1 / 10)) (Some ''b'') 2024 2 21,
      tx ''income'' ''Salary'' (fl (2 / 5)) (Some ''c'') 2024 1 22]"

definition thirteen_months :: "transaction list" where
  "thirteen_months =
     [tx ''income'' ''Salary'' (Finite 100) (Some ''pay'') 2023 1 5,
      tx ''expense'' ''Food'' (Finite 40) (Some ''lunch'') 2023 1 9,
      tx ''income'' ''Salary'' (Finite 10) (Some ''pay'') 2023 2 5,
      tx ''income'' ''Salary'' (Finite 10) (Some ''pay'') 2023 3 5,
      tx ''income'' ''Salary'' (Finite 10) (Some ''pay'') 2023 4 5,
      tx ''income'' ''Salary'' (Finite 10) (Some ''pay'') 2023 5 5,
      tx ''income'' ''Salary'' (Finite 10) (Some ''pay'') 2023 6 5,
      tx ''income'' ''Salary'' (Finite 10) (Some ''pay'') 2023 7 5,
      tx ''income'' ''Salary'' (Finite 10) (Some ''pay'') 2023 8 5,
      tx ''income'' ''Salary'' (Finite 10) (Some ''pay'') 2023 9 5,
      tx ''income'' ''Salary'' (Finite 10) (Some ''pay'') 2023 10 5,
      tx ''income'' ''Salary'' (Finite 10) (Some ''pay'') 2023 11 5,
      tx ''expense'' ''Rent'' (Finite 7) (Some ''flat'') 2023 12 5,
      tx ''income'' ''Salary'' (Finite 10) (Some ''pay'') 2024 1 5]"

section \<open>Properties\<close>

subsection \<open>Sums\<close>

lemma comprehension_filter: "[f t. t \<leftarrow> ts, P t] = map f (filter P ts)"
  by (induction ts) auto

lemma total_income_sum:
  "total_income A ts = py_sum A (map amount (filter (\<lambda>t. type t = ''income'') ts))"
  by (simp add: total_income_def comprehension_filter)

lemma total_expense_sum:
  "total_expense A ts = py_sum A (map amount (filter (\<lambda>t. type t = ''expense'') ts))"
  by (simp add: total_expense_def comprehension_filter)

lemma dict_get_Nil: "dict_get [] k z = z"
  by (simp add: dict_get_def)

lemma dict_get_update:
  "dict_get (AList.update k v d) k' z = (if k' = k then v else dict_get d k' z)"
  by (simp add: dict_get_def AList.update_conv')

subsection \<open>The category loop\<close>

lemma category_step_get:
  "dict_get (category_step A d t) c (Finite 0) =
     (if type t = ''expense'' \<and> category t = c
      then ar_add A (dict_get d c (Finite 0)) (amount t)
      else dict_get d c (Finite 0))"
  by (auto simp: category_step_def dict_get_update)

lemma category_fold_get:
  "dict_get (foldl (category_step A) d ts) c (Finite 0) =
     foldl (ar_add A) (dict_get d c (Finite 0))
       (map amount (filter (\<lambda>t. type t = ''expense'' \<and> category t = c) ts))"
  by (induction ts arbitrary: d) (simp_all add: category_step_get)

lemma category_step_keys:
  "fst ` set (category_step A d t) =
     (if type t = ''expense'' then insert (category t) (fst ` set d) else fst ` set d)"
  by (simp add: category_step_def AList.dom_update)

lemma expense_categories_Cons:
  "expense_categories (t # ts) =
     (if type t = ''expense'' then insert (category t) (expense_categories ts)
      else expense_categories ts)"
  by (auto simp: expense_categories_def)

lemma category_fold_keys:
  "fst ` set (foldl (category_step A) d ts) = fst ` set d \<union> expense_categories ts"
proof (induction ts arbitrary: d)
  case Nil
  show ?case by (simp add: expense_categories_def)
next
  case (Cons t ts)
  show ?case
    by (simp add: Cons.IH category_step_keys expense_categories_Cons)
qed

lemma category_step_distinct:
  "distinct (map fst d) \<Longrightarrow> distinct (map fst (category_step A d t))"
  by (simp add: category_step_def AList.distinct_update)

lemma category_fold_distinct:
  "distinct (map fst d) \<Longrightarrow> distinct (map fst (foldl (category_step A) d ts))"
  by (induction ts arbitrary: d) (auto simp: category_step_distinct)

lemma category_spending_distinct: "distinct (map fst (category_spending A ts))"
  by (simp add: category_spending_def category_fold_distinct)

lemma category_spending_keys: "fst ` set (category_spending A ts) = expense_categories ts"
  by (simp add: category_spending_def category_fold_keys)

lemma category_spending_map_of:
  "map_of (category_spending A ts) c =
     (if c \<in> expense_categories ts
      then Some (py_sum A (map amount (filter (\<lambda>t. type t = ''expense'' \<and> category t = c) ts)))
      else None)"
proof (cases "c \<in> expense_categories ts")
  case True
  then have "c \<in> fst ` set (category_spending A ts)"
    by (simp add: category_spending_keys)
  then obtain v where v: "map_of (category_spending A ts) c = Some v"
    by (metis map_of_eq_None_iff not_Some_eq)
  then have "dict_get (category_spending A ts) c (Finite 0) = v"
    by (simp add: dict_get_def)
  then have "v = py_sum A (map amount (filter (\<lambda>t. type t = ''expense'' \<and> category t = c) ts))"
    by (simp add: category_spending_def category_fold_get dict_get_Nil py_sum_def)
  with v True show ?thesis by simp
next
  case False
  then have "c \<notin> fst ` set (category_spending A ts)"
    by (simp add: category_spending_keys)
  then have "map_of (category_spending A ts) c = None"
    by (simp add: map_of_eq_None_iff)
  with False show ?thesis by simp
qed

lemma category_fold_drop_income:
  "foldl (category_step A) d (filter (\<lambda>t. type t \<noteq> ''income'') ts) = foldl (category_step A) d ts"
  by (induction ts arbitrary: d) (auto simp: category_step_def)

subsection \<open>The monthly loop never raises and computes the per-month sums\<close>

lemma monthly_step_Inr: "monthly_step A d t = Inr (month_upd A d t)"
proof (cases "strftime_Ym (date t) \<in> set (map fst d)")
  case True
  then obtain v where v: "map_of d (strftime_Ym (date t)) = Some v"
    by (metis map_of_eq_None_iff not_Some_eq set_map)
  with True show ?thesis
    by (simp add: monthly_step_def month_upd_def dict_getitem_def dict_get_def add_to_month_def)
next
  case False
  then have n: "map_of d (strftime_Ym (date t)) = None"
    by (simp add: map_of_eq_None_iff)
  with False show ?thesis
    by (simp add: monthly_step_def month_upd_def dict_getitem_def dict_get_def add_to_month_def
        AList.update_conv' zero_totals_def)
qed

lemma monthly_loop_Inr: "monthly_loop A d ts = Inr (foldl (month_upd A) d ts)"
  by (induction ts arbitrary: d) (simp_all add: monthly_step_Inr)

lemma month_upd_keys:
  "fst ` set (month_upd A d t) = insert (strftime_Ym (date t)) (fst ` set d)"
  by (simp add: month_upd_def AList.dom_update)

lemma month_keys_Cons: "month_keys (t # ts) = insert (strftime_Ym (date t)) (month_keys ts)"
  by (simp add: month_keys_def)

lemma month_fold_keys:
  "fst ` set (foldl (month_upd A) d ts) = fst ` set d \<union> month_keys ts"
proof (induction ts arbitrary: d)
  case Nil
  show ?case by (simp add: month_keys_def)
next
  case (Cons t ts)
  show ?case
    by (simp add: Cons.IH month_upd_keys month_keys_Cons)
qed

lemma month_fold_distinct:
  "distinct (map fst d) \<Longrightarrow> distinct (map fst (foldl (month_upd A) d ts))"
  by (induction ts arbitrary: d) (auto simp: month_upd_def AList.distinct_update)

lemma month_upd_get:
  "dict_get (month_upd A d t) k zero_totals =
     (if strftime_Ym (date t) = k then add_to_month A (dict_get d k zero_totals) t
      else dict_get d k zero_totals)"
  by (auto simp: month_upd_def dict_get_update)

lemma month_fold_income:
  "income (dict_get (foldl (month_upd A) d ts) k zero_totals) =
     foldl (ar_add A) (income (dict_get d k zero_totals))
       (map amount (filter (\<lambda>t. strftime_Ym (date t) = k \<and> type t = ''income'') ts))"
  by (induction ts arbitrary: d) (simp_all add: month_upd_get add_to_month_def)

lemma month_fold_expense:
  "expense (dict_get (foldl (month_upd A) d ts) k zero_totals) =
     foldl (ar_add A) (expense (dict_get d k zero_totals))
       (map amount (filter (\<lambda>t. strftime_Ym (date t) = k \<and> type t \<noteq> ''income'') ts))"
  by (induction ts arbitrary: d) (simp_all add: month_upd_get add_to_month_def)

lemma zero_totals_fields: "income zero_totals = Finite 0" "expense zero_totals = Finite 0"
  by (simp_all add: zero_totals_def)

lemma monthly_rows_Inr:
  "set ms \<subseteq> set (map fst d) \<Longrightarrow>
   monthly_rows d ms =
     Inr (map (\<lambda>m. \<lparr>income = income (dict_get d m zero_totals),
                     expense = expense (dict_get d m zero_totals), month = m\<rparr>) ms)"
proof (induction ms)
  case Nil
  show ?case by simp
next
  case (Cons m ms)
  then have "m \<in> set (map fst d)" by simp
  then obtain v where v: "map_of d m = Some v"
    by (metis map_of_eq_None_iff not_Some_eq set_map)
  with Cons show ?case
    by (simp add: dict_getitem_def dict_get_def)
qed

lemma set_last12: "set (last12 xs) \<subseteq> set xs"
  by (auto simp: last12_def dest: in_set_dropD)

lemma month_keys_finite: "finite (month_keys ts)"
  by (simp add: month_keys_def)

lemma sorted_months_eq:
  "sorted_months (foldl (month_upd A) [] ts) = last12 (sorted_list_of_set (month_keys ts))"
proof -
  let ?d = "foldl (month_upd A) [] ts"
  have d: "distinct (map fst ?d)" by (simp add: month_fold_distinct)
  have s: "set (map fst ?d) = month_keys ts" using month_fold_keys [of A "[]" ts] by simp
  have "sorted_list_of_set (set (map fst ?d)) = sort (remdups (map fst ?d))"
    by (rule sorted_list_of_set_sort_remdups)
  also have "\<dots> = sort (map fst ?d)"
    using d by (simp only: distinct_remdups_id)
  finally have "sort (map fst ?d) = sorted_list_of_set (month_keys ts)"
    by (simp only: s)
  then show ?thesis by (simp only: sorted_months_def)
qed

lemma monthly_summary_eq:
  "monthly_rows (foldl (month_upd A) [] ts) (sorted_months (foldl (month_upd A) [] ts)) =
     Inr (map (month_row A ts) (last12 (sorted_list_of_set (month_keys ts))))"
proof -
  let ?d = "foldl (month_upd A) [] ts"
  have s: "set (map fst ?d) = month_keys ts" using month_fold_keys [of A "[]" ts] by simp
  have sub: "set (last12 (sorted_list_of_set (month_keys ts))) \<subseteq> set (map fst ?d)"
    using set_last12 [of "sorted_list_of_set (month_keys ts)"] month_keys_finite [of ts] s by simp
  have row: "\<lparr>income = income (dict_get ?d m zero_totals),
              expense = expense (dict_get ?d m zero_totals), month = m\<rparr> = month_row A ts m" for m
    by (simp add: month_fold_income month_fold_expense month_row_def dict_get_Nil
        zero_totals_fields py_sum_def)
  show ?thesis
    by (simp only: sorted_months_eq monthly_rows_Inr [OF sub] row)
qed

lemma get_summary_eq:
  "get_summary A ts =
     Inr \<lparr>r_total_income = ar_round2 A (total_income A ts),
          r_total_expense = ar_round2 A (total_expense A ts),
          r_balance = ar_round2 A (balance A ts),
          r_category_spending = category_spending A ts,
          r_monthly_summary = map (month_row A ts) (last12 (sorted_list_of_set (month_keys ts))),
          r_transaction_count = length ts\<rparr>"
  by (simp add: get_summary_def monthly_loop_Inr monthly_summary_eq)

subsection \<open>Exact arithmetic\<close>

lemma exact_add_plus: "ar_add exact_arith a b = a + b"
  by (simp add: exact_arith_def plus_double_def)

lemma foldl_plus_sum_list: "foldl (+) a xs = a + sum_list (xs :: double list)"
  by (induction xs arbitrary: a) (simp_all add: add.assoc)

lemma py_sum_exact: "py_sum exact_arith xs = sum_list xs"
proof -
  have "ar_add exact_arith = (+)"
    by (intro ext) (rule exact_add_plus)
  then show ?thesis
    by (simp add: py_sum_def foldl_plus_sum_list zero_double_def [symmetric])
qed

lemma sum_snd_update:
  "sum_list (map snd (AList.update k (dict_get d k 0 + a) d)) = sum_list (map snd d) + (a :: double)"
  by (induction d) (auto simp: dict_get_def ac_simps)

lemma category_step_sum:
  "sum_list (map snd (category_step exact_arith d t)) =
     sum_list (map snd d) + (if type t = ''expense'' then amount t else 0)"
  by (simp add: category_step_def exact_add_plus zero_double_def [symmetric] sum_snd_update)

lemma category_fold_sum:
  "sum_list (map snd (foldl (category_step exact_arith) d ts)) =
     sum_list (map snd d) + sum_list (map amount (filter (\<lambda>t. type t = ''expense'') ts))"
  by (induction ts arbitrary: d) (simp_all add: category_step_sum add.assoc)

lemma category_sum_exact:
  "sum_list (map snd (category_spending exact_arith ts)) = total_expense exact_arith ts"
  by (simp add: category_spending_def category_fold_sum total_expense_sum py_sum_exact)

subsection \<open>Sums depend on the multiset of transactions only\<close>

lemma filtered_sum_mset:
  "sum_list (map f (filter P ts)) = (sum_mset (image_mset f (filter_mset P (mset ts))) :: double)"
proof -
  have "sum_mset (mset (map f (filter P ts))) = sum_list (map f (filter P ts))"
    by (rule sum_mset_sum_list)
  then show ?thesis by simp
qed

lemma month_row_mset:
  assumes "mset ts = mset ts'"
  shows "month_row exact_arith ts k = month_row exact_arith ts' k"
  unfolding month_row_def py_sum_exact filtered_sum_mset
  by (simp only: assms)

lemma month_keys_mset:
  assumes "mset ts = mset ts'"
  shows "month_keys ts = month_keys ts'"
proof -
  have "set ts = set ts'" using assms by (rule mset_eq_setD)
  then show ?thesis by (simp only: month_keys_def)
qed

lemma category_map_mset:
  assumes "mset ts = mset ts'"
  shows "map_of (category_spending exact_arith ts) = map_of (category_spending exact_arith ts')"
proof
  fix c
  have "set ts = set ts'" using assms by (rule mset_eq_setD)
  then have e: "expense_categories ts = expense_categories ts'"
    by (simp only: expense_categories_def)
  have s: "py_sum exact_arith (map amount (filter (\<lambda>t. type t = ''expense'' \<and> category t = c) ts))
         = py_sum exact_arith (map amount (filter (\<lambda>t. type t = ''expense'' \<and> category t = c) ts'))"
    unfolding py_sum_exact filtered_sum_mset by (simp only: assms)
  show "map_of (category_spending exact_arith ts) c = map_of (category_spending exact_arith ts') c"
    by (simp only: category_spending_map_of e s)
qed

subsection \<open>Per-month sums partition the totals\<close>

lemma keyed_sum_Cons:
  "sum_list (map g (filter (\<lambda>t. key t = k \<and> P t) (t # ts))) =
     (if k = key t then (if P t then g t else 0) else (0 :: double))
       + sum_list (map g (filter (\<lambda>t. key t = k \<and> P t) ts))"
  by auto

lemma keyed_sum_partition:
  "finite K \<Longrightarrow> key ` set ts \<subseteq> K \<Longrightarrow>
   (\<Sum>k\<in>K. sum_list (map g (filter (\<lambda>t. key t = k \<and> P t) ts))) =
     (sum_list (map g (filter P ts)) :: double)"
proof (induction ts)
  case Nil
  show ?case by simp
next
  case (Cons t ts)
  have kt: "key t \<in> K" using Cons.prems by simp
  have sub: "key ` set ts \<subseteq> K" using Cons.prems by simp
  have ih: "(\<Sum>k\<in>K. sum_list (map g (filter (\<lambda>t. key t = k \<and> P t) ts))) =
     sum_list (map g (filter P ts))"
    using Cons.IH [OF Cons.prems(1) sub] .
  have d: "(\<Sum>k\<in>K. if k = key t then (if P t then g t else 0) else 0) = (if P t then g t else 0)"
    using Cons.prems(1) kt by (simp only: sum.delta if_True)
  have "(\<Sum>k\<in>K. sum_list (map g (filter (\<lambda>t. key t = k \<and> P t) (t # ts)))) =
        (\<Sum>k\<in>K. (if k = key t then (if P t then g t else 0) else 0)
                  + sum_list (map g (filter (\<lambda>t. key t = k \<and> P t) ts)))"
    by (simp only: keyed_sum_Cons)
  also have "\<dots> = (\<Sum>k\<in>K. if k = key t then (if P t then g t else 0) else 0)
                   + (\<Sum>k\<in>K. sum_list (map g (filter (\<lambda>t. key t = k \<and> P t) ts)))"
    by (rule sum.distrib)
  also have "\<dots> = (if P t then g t else 0) + sum_list (map g (filter P ts))"
    by (simp only: d ih)
  also have "\<dots> = sum_list (map g (filter P (t # ts)))"
    by simp
  finally show ?case .
qed

lemma last12_short: "length xs \<le> 12 \<Longrightarrow> last12 xs = xs"
  by (simp add: last12_def)

lemma month_keys_cover: "(\<lambda>t. strftime_Ym (date t)) ` set ts \<subseteq> month_keys ts"
  by (simp add: month_keys_def)

lemma sorted_keys_sum:
  "sum_list (map f (sorted_list_of_set (month_keys ts))) = (sum f (month_keys ts) :: double)"
proof -
  have "sum_list (map f (sorted_list_of_set (month_keys ts))) =
        sum f (set (sorted_list_of_set (month_keys ts)))"
    by (rule sum_list_distinct_conv_sum_set) simp
  then show ?thesis by (simp add: month_keys_finite)
qed

lemma series_income_total:
  assumes "card (month_keys ts) \<le> 12"
  shows "sum_list (map income (map (month_row exact_arith ts)
                     (last12 (sorted_list_of_set (month_keys ts)))))
         = sum_list (map amount (filter (\<lambda>t. type t = ''income'') ts))"
proof -
  let ?ks = "sorted_list_of_set (month_keys ts)"
  let ?f = "\<lambda>k. sum_list (map amount
              (filter (\<lambda>t. strftime_Ym (date t) = k \<and> type t = ''income'') ts))"
  have l: "last12 ?ks = ?ks" using assms by (simp add: last12_short)
  have "map income (map (month_row exact_arith ts) ?ks) = map ?f ?ks"
    by (simp add: month_row_def py_sum_exact)
  then have "sum_list (map income (map (month_row exact_arith ts) ?ks)) = sum ?f (month_keys ts)"
    by (simp only: sorted_keys_sum)
  also have "\<dots> = sum_list (map amount (filter (\<lambda>t. type t = ''income'') ts))"
    by (rule keyed_sum_partition [OF month_keys_finite month_keys_cover])
  finally show ?thesis by (simp only: l)
qed

lemma series_expense_total:
  assumes "card (month_keys ts) \<le> 12"
  shows "sum_list (map expense (map (month_row exact_arith ts)
                     (last12 (sorted_list_of_set (month_keys ts)))))
         = sum_list (map amount (filter (\<lambda>t. type t \<noteq> ''income'') ts))"
proof -
  let ?ks = "sorted_list_of_set (month_keys ts)"
  let ?f = "\<lambda>k. sum_list (map amount
              (filter (\<lambda>t. strftime_Ym (date t) = k \<and> type t \<noteq> ''income'') ts))"
  have l: "last12 ?ks = ?ks" using assms by (simp add: last12_short)
  have "map expense (map (month_row exact_arith ts) ?ks) = map ?f ?ks"
    by (simp add: month_row_def py_sum_exact)
  then have "sum_list (map expense (map (month_row exact_arith ts) ?ks)) = sum ?f (month_keys ts)"
    by (simp only: sorted_keys_sum)
  also have "\<dots> = sum_list (map amount (filter (\<lambda>t. type t \<noteq> ''income'') ts))"
    by (rule keyed_sum_partition [OF month_keys_finite month_keys_cover])
  finally show ?thesis by (simp only: l)
qed

lemma non_income_is_expense:
  assumes "\<forall>t\<in>set ts. type t = ''income'' \<or> type t = ''expense''"
  shows "filter (\<lambda>t. type t \<noteq> ''income'') ts = filter (\<lambda>t. type t = ''expense'') ts"
  using assms by (induction ts) auto

subsection \<open>Rounding to binary64 on concrete values\<close>

lemma floor_rat_numeral_div: "\<lfloor>numeral a / numeral b :: rat\<rfloor> = numeral a div numeral b"
  using floor_divide_of_int_eq [of "numeral a" "numeral b", where ?'a = rat] by simp

lemma floor_rat_neg_numeral_div:
  "\<lfloor>- (numeral a / numeral b) :: rat\<rfloor> = - numeral a div numeral b"
  using floor_divide_of_int_eq [of "- numeral a" "numeral b", where ?'a = rat] by simp

lemma ceiling_rat_numeral_div: "\<lceil>numeral a / numeral b :: rat\<rceil> = - (- numeral a div numeral b)"
  using ceiling_divide_eq_div [of "numeral a" "numeral b", where ?'a = rat] by simp

lemmas fl_eval_simps = ilog2_def pow2_def round_half_even_def Let_def bit_length.simps
  floor_rat_numeral_div floor_rat_neg_numeral_div ceiling_rat_numeral_div

lemma fl_zero: "fl 0 = Finite 0"
  by (simp add: fl_def)

lemma fl_eval:
  assumes "x \<noteq> 0" and "ilog2 \<bar>x\<bar> = l" and "max (l - 52) (- 1074) = e"
    and "round_half_even (\<bar>x\<bar> / pow2 e) = m" and "of_int m * pow2 e = v" and "v < 2 ^ 1024"
  shows "fl x = Finite (if x < 0 then - v else v)"
  using assms(1) assms(6)
  unfolding fl_def Let_def assms(2) assms(3) assms(4) assms(5)
  by simp

lemma bit_length_nonneg: "0 \<le> bit_length n"
  by (induction n rule: bit_length.induct) (subst bit_length.simps, simp)

lemma bit_length_pos: "0 < n \<Longrightarrow> 1 \<le> bit_length n"
  using bit_length_nonneg [of "n div 2"] by (subst bit_length.simps) simp

lemma bit_length_le: "n < 2 ^ k \<Longrightarrow> bit_length n \<le> int k"
proof (induction k arbitrary: n)
  case 0
  then show ?case by (subst bit_length.simps) simp
next
  case (Suc k)
  have "n div 2 < 2 ^ k" using Suc.prems by simp
  then have "bit_length (n div 2) \<le> int k" by (rule Suc.IH)
  then show ?case by (subst bit_length.simps) simp
qed

lemma round_half_even_of_int: "round_half_even (of_int k) = k"
  by (simp add: round_half_even_def)

lemma pow2_nonpos: "e \<le> 0 \<Longrightarrow> pow2 e = 1 / 2 ^ nat (- e)"
  by (cases "e = 0") (simp_all add: pow2_def)

text \<open>Every integer below \<open>2 ^ 53\<close> is a binary64 value.\<close>

lemma fl_of_pos_int:
  assumes "0 < n" and "n < 2 ^ 53"
  shows "fl (of_int n) = Finite (of_int n)"
proof -
  define l where "l = bit_length n - 1"
  define e where "e = l - 52"
  define m where "m = n * 2 ^ nat (- e)"
  have l0: "0 \<le> l" using bit_length_pos [OF assms(1)] by (simp add: l_def)
  have l52: "l \<le> 52" using bit_length_le [OF assms(2)] by (simp add: l_def)
  have e0: "e \<le> 0" using l52 by (simp add: e_def)
  have p: "pow2 e = 1 / 2 ^ nat (- e)" using e0 by (rule pow2_nonpos)
  have x0: "(of_int n :: rat) \<noteq> 0" using assms(1) by simp
  have a: "\<bar>of_int n :: rat\<bar> = of_int n" using assms(1) by simp
  have i: "ilog2 \<bar>of_int n :: rat\<bar> = l"
    using assms(1) by (simp add: a ilog2_def l_def)
  have mx: "max (l - 52) (- 1074) = e" using l0 by (simp add: e_def)
  have q: "\<bar>of_int n :: rat\<bar> / pow2 e = of_int m"
    by (simp add: a p m_def)
  have r: "round_half_even (\<bar>of_int n :: rat\<bar> / pow2 e) = m"
    by (simp only: q round_half_even_of_int)
  have v: "of_int m * pow2 e = (of_int n :: rat)"
    by (simp add: p m_def)
  have "(of_int n :: rat) < of_int (2 ^ 53)" using assms(2) by (simp only: of_int_less_iff)
  also have "(of_int (2 ^ 53) :: rat) \<le> 2 ^ 1024" by simp
  finally have b: "(of_int n :: rat) < 2 ^ 1024" .
  have "fl (of_int n) = Finite (if (of_int n :: rat) < 0 then - of_int n else of_int n)"
    by (rule fl_eval [OF x0 i mx r v b])
  then show ?thesis using assms(1) by simp
qed

lemma fl_numeral: "numeral k < (2::int) ^ 53 \<Longrightarrow> fl (numeral k) = Finite (numeral k)"
  using fl_of_pos_int [of "numeral k"] by simp

text \<open>The roundings that occur in the examples.\<close>

lemma fl_value_1: "fl (7 / 200) = Finite (1261007895663739 / 36028797018963968)"
  by (rule fl_eval [where x = "7 / 200" and l = "- 5" and e = "- 57" and m = 5044031582654956
        and v = "1261007895663739 / 36028797018963968", simplified])
     (simp_all add: fl_eval_simps)

lemma fl_value_2: "fl (1261007895663739 / 36028797018963968) = Finite (1261007895663739 / 36028797018963968)"
  by (rule fl_eval [where x = "1261007895663739 / 36028797018963968" and l = "- 5" and e = "- 57" and m = 5044031582654956
        and v = "1261007895663739 / 36028797018963968", simplified])
     (simp_all add: fl_eval_simps)

lemma fl_value_3: "fl (1 / 25) = Finite (5764607523034235 / 144115188075855872)"
  by (rule fl_eval [where x = "1 / 25" and l = "- 5" and e = "- 57" and m = 5764607523034235
        and v = "5764607523034235 / 144115188075855872", simplified])
     (simp_all add: fl_eval_simps)

lemma fl_value_4: "fl (1 / 10) = Finite (3602879701896397 / 36028797018963968)"
  by (rule fl_eval [where x = "1 / 10" and l = "- 4" and e = "- 56" and m = 7205759403792794
        and v = "3602879701896397 / 36028797018963968", simplified])
     (simp_all add: fl_eval_simps)

lemma fl_value_5: "fl (3602879701896397 / 36028797018963968) = Finite (3602879701896397 / 36028797018963968)"
  by (rule fl_eval [where x = "3602879701896397 / 36028797018963968" and l = "- 4" and e = "- 56" and m = 7205759403792794
        and v = "3602879701896397 / 36028797018963968", simplified])
     (simp_all add: fl_eval_simps)

lemma fl_value_6: "fl (3 / 25) = Finite (1080863910568919 / 9007199254740992)"
  by (rule fl_eval [where x = "3 / 25" and l = "- 4" and e = "- 56" and m = 8646911284551352
        and v = "1080863910568919 / 9007199254740992", simplified])
     (simp_all add: fl_eval_simps)

lemma fl_value_7: "fl (1 / 8) = Finite (1 / 8)"
  by (rule fl_eval [where x = "1 / 8" and l = "- 3" and e = "- 55" and m = 4503599627370496
        and v = "1 / 8", simplified])
     (simp_all add: fl_eval_simps)

lemma fl_value_8: "fl (1 / 5) = Finite (3602879701896397 / 18014398509481984)"
  by (rule fl_eval [where x = "1 / 5" and l = "- 3" and e = "- 55" and m = 7205759403792794
        and v = "3602879701896397 / 18014398509481984", simplified])
     (simp_all add: fl_eval_simps)

lemma fl_value_9: "fl (3602879701896397 / 18014398509481984) = Finite (3602879701896397 / 18014398509481984)"
  by (rule fl_eval [where x = "3602879701896397 / 18014398509481984" and l = "- 3" and e = "- 55" and m = 7205759403792794
        and v = "3602879701896397 / 18014398509481984", simplified])
     (simp_all add: fl_eval_simps)

lemma fl_value_10: "fl (9547631210025451 / 36028797018963968) = Finite (2386907802506363 / 9007199254740992)"
  by (rule fl_eval [where x = "9547631210025451 / 36028797018963968" and l = "- 2" and e = "- 54" and m = 4773815605012726
        and v = "2386907802506363 / 9007199254740992", simplified])
     (simp_all add: fl_eval_simps)

lemma fl_value_11: "fl (27 / 100) = Finite (607985949695017 / 2251799813685248)"
  by (rule fl_eval [where x = "27 / 100" and l = "- 2" and e = "- 54" and m = 4863887597560136
        and v = "607985949695017 / 2251799813685248", simplified])
     (simp_all add: fl_eval_simps)

lemma fl_value_12: "fl (5404319552844595 / 18014398509481984) = Finite (5404319552844595 / 18014398509481984)"
  by (rule fl_eval [where x = "5404319552844595 / 18014398509481984" and l = "- 2" and e = "- 54" and m = 5404319552844595
        and v = "5404319552844595 / 18014398509481984", simplified])
     (simp_all add: fl_eval_simps)

lemma fl_value_13: "fl (- (3 / 10)) = Finite (- (5404319552844595 / 18014398509481984))"
  by (rule fl_eval [where x = "- (3 / 10)" and l = "- 2" and e = "- 54" and m = 5404319552844595
        and v = "5404319552844595 / 18014398509481984", simplified])
     (simp_all add: fl_eval_simps)

lemma fl_value_14: "fl (3 / 10) = Finite (5404319552844595 / 18014398509481984)"
  by (rule fl_eval [where x = "3 / 10" and l = "- 2" and e = "- 54" and m = 5404319552844595
        and v = "5404319552844595 / 18014398509481984", simplified])
     (simp_all add: fl_eval_simps)

lemma fl_value_15: "fl (10808639105689191 / 36028797018963968) = Finite (1351079888211149 / 4503599627370496)"
  by (rule fl_eval [where x = "10808639105689191 / 36028797018963968" and l = "- 2" and e = "- 54" and m = 5404319552844596
        and v = "1351079888211149 / 4503599627370496", simplified])
     (simp_all add: fl_eval_simps)

lemma fl_value_16: "fl (- (1351079888211149 / 4503599627370496)) = Finite (- (1351079888211149 / 4503599627370496))"
  by (rule fl_eval [where x = "- (1351079888211149 / 4503599627370496)" and l = "- 2" and e = "- 54" and m = 5404319552844596
        and v = "1351079888211149 / 4503599627370496", simplified])
     (simp_all add: fl_eval_simps)

lemma fl_value_17: "fl (1351079888211149 / 4503599627370496) = Finite (1351079888211149 / 4503599627370496)"
  by (rule fl_eval [where x = "1351079888211149 / 4503599627370496" and l = "- 2" and e = "- 54" and m = 5404319552844596
        and v = "1351079888211149 / 4503599627370496", simplified])
     (simp_all add: fl_eval_simps)

lemma fl_value_18: "fl (19 / 50) = Finite (3422735716801577 / 9007199254740992)"
  by (rule fl_eval [where x = "19 / 50" and l = "- 2" and e = "- 54" and m = 6845471433603154
        and v = "3422735716801577 / 9007199254740992", simplified])
     (simp_all add: fl_eval_simps)

lemma fl_value_19: "fl (2 / 5) = Finite (3602879701896397 / 9007199254740992)"
  by (rule fl_eval [where x = "2 / 5" and l = "- 2" and e = "- 54" and m = 7205759403792794
        and v = "3602879701896397 / 9007199254740992", simplified])
     (simp_all add: fl_eval_simps)

lemma fl_value_20: "fl (1 / 2) = Finite (1 / 2)"
  by (rule fl_eval [where x = "1 / 2" and l = "- 1" and e = "- 53" and m = 4503599627370496
        and v = "1 / 2", simplified])
     (simp_all add: fl_eval_simps)

lemma fl_value_21: "fl (18014398509481985 / 36028797018963968) = Finite (1 / 2)"
  by (rule fl_eval [where x = "18014398509481985 / 36028797018963968" and l = "- 1" and e = "- 53" and m = 4503599627370496
        and v = "1 / 2", simplified])
     (simp_all add: fl_eval_simps)

lemma fl_value_22: "fl (- (3 / 5)) = Finite (- (5404319552844595 / 9007199254740992))"
  by (rule fl_eval [where x = "- (3 / 5)" and l = "- 1" and e = "- 53" and m = 5404319552844595
        and v = "5404319552844595 / 9007199254740992", simplified])
     (simp_all add: fl_eval_simps)

lemma fl_value_23: "fl (3 / 5) = Finite (5404319552844595 / 9007199254740992)"
  by (rule fl_eval [where x = "3 / 5" and l = "- 1" and e = "- 53" and m = 5404319552844595
        and v = "5404319552844595 / 9007199254740992", simplified])
     (simp_all add: fl_eval_simps)

lemma fl_value_24: "fl (21617278211378381 / 36028797018963968) = Finite (5404319552844595 / 9007199254740992)"
  by (rule fl_eval [where x = "21617278211378381 / 36028797018963968" and l = "- 1" and e = "- 53" and m = 5404319552844595
        and v = "5404319552844595 / 9007199254740992", simplified])
     (simp_all add: fl_eval_simps)

lemma fl_value_25: "fl (10808639105689191 / 18014398509481984) = Finite (1351079888211149 / 2251799813685248)"
  by (rule fl_eval [where x = "10808639105689191 / 18014398509481984" and l = "- 1" and e = "- 53" and m = 5404319552844596
        and v = "1351079888211149 / 2251799813685248", simplified])
     (simp_all add: fl_eval_simps)

lemma fl_value_26: "fl (- (1351079888211149 / 2251799813685248)) = Finite (- (1351079888211149 / 2251799813685248))"
  by (rule fl_eval [where x = "- (1351079888211149 / 2251799813685248)" and l = "- 1" and e = "- 53" and m = 5404319552844596
        and v = "1351079888211149 / 2251799813685248", simplified])
     (simp_all add: fl_eval_simps)

lemma fl_value_27: "fl (1351079888211149 / 2251799813685248) = Finite (1351079888211149 / 2251799813685248)"
  by (rule fl_eval [where x = "1351079888211149 / 2251799813685248" and l = "- 1" and e = "- 53" and m = 5404319552844596
        and v = "1351079888211149 / 2251799813685248", simplified])
     (simp_all add: fl_eval_simps)

lemmas fl_values = fl_zero fl_numeral fl_value_1 fl_value_2 fl_value_3 fl_value_4 fl_value_5 fl_value_6 fl_value_7 fl_value_8 fl_value_9 fl_value_10 fl_value_11 fl_value_12 fl_value_13 fl_value_14 fl_value_15 fl_value_16 fl_value_17 fl_value_18 fl_value_19 fl_value_20 fl_value_21 fl_value_22 fl_value_23 fl_value_24 fl_value_25 fl_value_26 fl_value_27

subsection \<open>Rounding to two decimals\<close>

lemma round_half_even_close: "\<bar>y - of_int (round_half_even y)\<bar> \<le> 1 / 2"
proof -
  define f where "f = \<lfloor>y\<rfloor>"
  define d where "d = y - of_int f"
  have d0: "0 \<le> d" by (simp add: d_def f_def)
  have d1: "d < 1" using floor_correct [of y] by (simp add: d_def f_def)
  have y: "y = of_int f + d" by (simp add: d_def)
  have r: "round_half_even y =
             (if d < 1 / 2 then f else if 1 / 2 < d then f + 1 else if even f then f else f + 1)"
    by (simp add: round_half_even_def Let_def f_def d_def)
  have "\<bar>(of_int f + d)
          - of_int (if d < 1 / 2 then f else if 1 / 2 < d then f + 1
                    else if even f then f else f + 1)\<bar> \<le> 1 / 2"
    using d0 d1 by (auto simp: abs_if)
  then have "\<bar>y - of_int (if d < 1 / 2 then f else if 1 / 2 < d then f + 1
                               else if even f then f else f + 1)\<bar> \<le> 1 / 2"
    by (simp only: y [symmetric])
  then show ?thesis by (simp only: r)
qed

lemma float_round2_close:
  "\<exists>k. float_round2 (Finite b) = fl (of_int k / 100) \<and> \<bar>b - of_int k / 100\<bar> \<le> 1 / 200"
proof -
  let ?k = "round_half_even (b * 100)"
  have "\<bar>b * 100 - of_int ?k\<bar> \<le> 1 / 2" by (rule round_half_even_close)
  moreover have "\<bar>b - of_int ?k / 100\<bar> = \<bar>b * 100 - of_int ?k\<bar> / 100"
    by (simp add: abs_if field_simps)
  ultimately have "\<bar>b - of_int ?k / 100\<bar> \<le> 1 / 200" by simp
  then show ?thesis by (intro exI [of _ ?k]) simp
qed

subsection \<open>The month key determines year and month\<close>















subsection \<open>Evaluation on concrete inputs\<close>

lemmas summary_eval = get_summary_def monthly_step_def strftime_Ym_def zero_pad_def digits.simps
  digit_char_def dict_getitem_def dict_get_def sorted_months_def last12_def total_income_def
  total_expense_def balance_def py_sum_def category_spending_def category_step_def Let_def
  float_arith_def exact_arith_def round_half_even_def floor_rat_numeral_div
  floor_rat_neg_numeral_div fl_values

subsection \<open>Totals of the summary\<close>





subsection \<open>The monthly series\<close>









subsection \<open>The category breakdown\<close>

lemmas exact_sum_eval = plus_double_def zero_double_def

text \<open>
  Claim C3, as the code has it. The category breakdown is a dict with distinct keys.
  It maps a label to the sum, accumulated in the order of the list, of the amounts of
  the expense transactions with that label, and has an entry exactly for the labels of
  expense transactions. Removing every income transaction from the input leaves it
  unchanged. Under exact arithmetic its values add up to the unrounded total expense.
\<close>

theorem category_breakdown:
  "(\<exists>r. get_summary float_arith ts = Inr r
      \<and> r_category_spending r = category_spending float_arith ts)
   \<and> distinct (map fst (category_spending float_arith ts))
   \<and> map_of (category_spending float_arith ts) c =
       (if c \<in> category ` {t \<in> set ts. type t = ''expense''}
        then Some (foldl float_add (Finite 0)
                    (map amount (filter (\<lambda>t. type t = ''expense'' \<and> category t = c) ts)))
        else None)
   \<and> category_spending float_arith (filter (\<lambda>t. type t \<noteq> ''income'') ts)
       = category_spending float_arith ts
   \<and> map_of (category_spending exact_arith ts) c =
       (if c \<in> category ` {t \<in> set ts. type t = ''expense''}
        then Some (sum_list
                    (map amount (filter (\<lambda>t. type t = ''expense'' \<and> category t = c) ts)))
        else None)
   \<and> sum_list (map snd (category_spending exact_arith ts)) = total_expense exact_arith ts
   \<and> total_expense exact_arith ts =
       sum_list (map amount (filter (\<lambda>t. type t = ''expense'') ts))"
proof -
  have r: "\<exists>r. get_summary float_arith ts = Inr r
      \<and> r_category_spending r = category_spending float_arith ts"
    by (simp add: get_summary_eq)
  have a: "distinct (map fst (category_spending float_arith ts))"
    by (rule category_spending_distinct)
  have b: "map_of (category_spending float_arith ts) c =
       (if c \<in> category ` {t \<in> set ts. type t = ''expense''}
        then Some (foldl float_add (Finite 0)
                    (map amount (filter (\<lambda>t. type t = ''expense'' \<and> category t = c) ts)))
        else None)"
    using category_spending_map_of [of float_arith ts c]
    by (simp add: expense_categories_def py_sum_def float_arith_def)
  have d: "category_spending float_arith (filter (\<lambda>t. type t \<noteq> ''income'') ts)
       = category_spending float_arith ts"
    by (simp add: category_spending_def category_fold_drop_income)
  have e: "map_of (category_spending exact_arith ts) c =
       (if c \<in> category ` {t \<in> set ts. type t = ''expense''}
        then Some (sum_list
                    (map amount (filter (\<lambda>t. type t = ''expense'' \<and> category t = c) ts)))
        else None)"
    using category_spending_map_of [of exact_arith ts c]
    by (simp add: expense_categories_def py_sum_exact)
  have f: "total_expense exact_arith ts =
       sum_list (map amount (filter (\<lambda>t. type t = ''expense'') ts))"
    by (simp add: total_expense_sum py_sum_exact)
  show ?thesis
    by (intro conjI) (rule r a b d e category_sum_exact f)+
qed

text \<open>
  With the expenses 0.1 and 0.4 under one label and 0.1 under another, the values of
  the breakdown are 0.5 and 0.1. Their sum is 0.6, added as floats and added exactly
  alike, while the total expense is the next float above 0.6.
\<close>

theorem category_values_sum_differs:
  "category_spending float_arith tenths_expenses = [(''A'', Finite (1 / 2)), (''B'', fl (1 / 10))]
   \<and> total_expense float_arith tenths_expenses
       = Finite (1351079888211149 / 2251799813685248)
   \<and> py_sum float_arith (map snd (category_spending float_arith tenths_expenses))
       = Finite (5404319552844595 / 9007199254740992)
   \<and> py_sum float_arith (map snd (category_spending float_arith tenths_expenses))
       \<noteq> total_expense float_arith tenths_expenses
   \<and> sum_list (map snd (category_spending float_arith tenths_expenses))
       \<noteq> total_expense float_arith tenths_expenses"
proof -
  have c: "category_spending float_arith tenths_expenses
           = [(''A'', Finite (1 / 2)), (''B'', fl (1 / 10))]"
    by (simp add: tenths_expenses_def tx_def summary_eval)
  have t: "total_expense float_arith tenths_expenses
           = Finite (1351079888211149 / 2251799813685248)"
    by (simp add: tenths_expenses_def tx_def summary_eval)
  show ?thesis
    unfolding c t by (simp add: py_sum_def float_arith_def exact_sum_eval fl_values)
qed

subsection \<open>Rounding\<close>

lemma category_spending_values:
  "map snd (category_spending A ts) =
     map (\<lambda>c. py_sum A (map amount (filter (\<lambda>t. type t = ''expense'' \<and> category t = c) ts)))
       (map fst (category_spending A ts))"
proof -
  have d: "distinct (map fst (category_spending A ts))"
    by (rule category_spending_distinct)
  have "snd p = py_sum A (map amount
                  (filter (\<lambda>t. type t = ''expense'' \<and> category t = fst p) ts))"
    if "p \<in> set (category_spending A ts)" for p
  proof -
    from that have "(fst p, snd p) \<in> set (category_spending A ts)" by simp
    with d have "map_of (category_spending A ts) (fst p) = Some (snd p)"
      by (simp only: map_of_eq_Some_iff)
    then show ?thesis
      by (simp add: category_spending_map_of split: if_splits)
  qed
  then show ?thesis by simp
qed

lemma eighth_example_summary:
  "get_summary float_arith eighth_example =
     Inr \<lparr>r_total_income = fl (3 / 25), r_total_expense = Finite 0, r_balance = fl (3 / 25),
          r_category_spending = [],
          r_monthly_summary = [\<lparr>income = Finite (1 / 8), expense = Finite 0, month = ''2024-03''\<rparr>],
          r_transaction_count = 1\<rparr>"
  by (simp add: eighth_example_def tx_def summary_eval)

text \<open>
  Claim C5, as the code has it. The three reported totals are \<^verbatim>\<open>round(., 2)\<close> of the
  sums. Every value of the category breakdown is the sum of the expense amounts of
  its label, and every income and expense value of the monthly series is the sum of
  the amounts the loop added under the month's key (income transactions, and all
  others), accumulated as floats in the order of the list and not rounded to two
  decimals; under exact arithmetic these values are the exact sums. For a single
  income of 0.125 the reported total is 0.12 and the value in the series 0.125.
\<close>

theorem rounding_only_top_level:
  "(\<exists>r. get_summary float_arith ts = Inr r
      \<and> r_total_income r = float_round2 (total_income float_arith ts)
      \<and> r_total_expense r = float_round2 (total_expense float_arith ts)
      \<and> r_balance r = float_round2 (balance float_arith ts)
      \<and> map snd (r_category_spending r) =
          map (\<lambda>c. foldl float_add (Finite 0)
                      (map amount (filter (\<lambda>t. type t = ''expense'' \<and> category t = c) ts)))
            (map fst (r_category_spending r))
      \<and> map income (r_monthly_summary r) =
          map (\<lambda>k. foldl float_add (Finite 0) (map amount
                      (filter (\<lambda>t. strftime_Ym (date t) = k \<and> type t = ''income'') ts)))
            (map month (r_monthly_summary r))
      \<and> map expense (r_monthly_summary r) =
          map (\<lambda>k. foldl float_add (Finite 0) (map amount
                      (filter (\<lambda>t. strftime_Ym (date t) = k \<and> type t \<noteq> ''income'') ts)))
            (map month (r_monthly_summary r)))
   \<and> (\<exists>r. get_summary exact_arith ts = Inr r
      \<and> map snd (r_category_spending r) =
          map (\<lambda>c. sum_list
                      (map amount (filter (\<lambda>t. type t = ''expense'' \<and> category t = c) ts)))
            (map fst (r_category_spending r))
      \<and> map income (r_monthly_summary r) =
          map (\<lambda>k. sum_list (map amount
                      (filter (\<lambda>t. strftime_Ym (date t) = k \<and> type t = ''income'') ts)))
            (map month (r_monthly_summary r))
      \<and> map expense (r_monthly_summary r) =
          map (\<lambda>k. sum_list (map amount
                      (filter (\<lambda>t. strftime_Ym (date t) = k \<and> type t \<noteq> ''income'') ts)))
            (map month (r_monthly_summary r)))
   \<and> (\<exists>k. float_round2 (Finite b) = fl (of_int k / 100) \<and> \<bar>b - of_int k / 100\<bar> \<le> 1 / 200)
   \<and> get_summary float_arith eighth_example =
       Inr \<lparr>r_total_income = fl (3 / 25), r_total_expense = Finite 0, r_balance = fl (3 / 25),
            r_category_spending = [],
            r_monthly_summary =
              [\<lparr>income = Finite (1 / 8), expense = Finite 0, month = ''2024-03''\<rparr>],
            r_transaction_count = 1\<rparr>
   \<and> fl (3 / 25) \<noteq> Finite (1 / 8)"
proof -
  have cf: "map snd (category_spending float_arith ts) =
          map (\<lambda>c. foldl float_add (Finite 0)
                      (map amount (filter (\<lambda>t. type t = ''expense'' \<and> category t = c) ts)))
            (map fst (category_spending float_arith ts))"
    using category_spending_values [of float_arith ts]
    by (simp add: py_sum_def float_arith_def)
  have ce: "map snd (category_spending exact_arith ts) =
          map (\<lambda>c. sum_list
                      (map amount (filter (\<lambda>t. type t = ''expense'' \<and> category t = c) ts)))
            (map fst (category_spending exact_arith ts))"
    using category_spending_values [of exact_arith ts]
    by (simp add: py_sum_exact)
  have f: "\<exists>r. get_summary float_arith ts = Inr r
      \<and> r_total_income r = float_round2 (total_income float_arith ts)
      \<and> r_total_expense r = float_round2 (total_expense float_arith ts)
      \<and> r_balance r = float_round2 (balance float_arith ts)
      \<and> map snd (r_category_spending r) =
          map (\<lambda>c. foldl float_add (Finite 0)
                      (map amount (filter (\<lambda>t. type t = ''expense'' \<and> category t = c) ts)))
            (map fst (r_category_spending r))
      \<and> map income (r_monthly_summary r) =
          map (\<lambda>k. foldl float_add (Finite 0) (map amount
                      (filter (\<lambda>t. strftime_Ym (date t) = k \<and> type t = ''income'') ts)))
            (map month (r_monthly_summary r))
      \<and> map expense (r_monthly_summary r) =
          map (\<lambda>k. foldl float_add (Finite 0) (map amount
                      (filter (\<lambda>t. strftime_Ym (date t) = k \<and> type t \<noteq> ''income'') ts)))
            (map month (r_monthly_summary r))"
    using cf by (simp add: get_summary_eq month_row_def py_sum_def) (simp add: float_arith_def)
  have e: "\<exists>r. get_summary exact_arith ts = Inr r
      \<and> map snd (r_category_spending r) =
          map (\<lambda>c. sum_list
                      (map amount (filter (\<lambda>t. type t = ''expense'' \<and> category t = c) ts)))
            (map fst (r_category_spending r))
      \<and> map income (r_monthly_summary r) =
          map (\<lambda>k. sum_list (map amount
                      (filter (\<lambda>t. strftime_Ym (date t) = k \<and> type t = ''income'') ts)))
            (map month (r_monthly_summary r))
      \<and> map expense (r_monthly_summary r) =
          map (\<lambda>k. sum_list (map amount
                      (filter (\<lambda>t. strftime_Ym (date t) = k \<and> type t \<noteq> ''income'') ts)))
            (map month (r_monthly_summary r))"
    using ce by (simp add: get_summary_eq month_row_def py_sum_exact)
  note c = float_round2_close [of b]
  have n: "fl (3 / 25) \<noteq> Finite (1 / 8)"
    by (simp add: fl_values)
  show ?thesis
    by (intro conjI) (rule f e c eighth_example_summary n)+
qed

text \<open>
  With the expenses 0.1 and 0.2 under one label the value of the breakdown is
  0.30000000000000004, which is not the exact sum of the two amounts.
\<close>

theorem category_value_not_exact_sum:
  "category_spending float_arith tenths_food
     = [(''Food'', Finite (1351079888211149 / 4503599627370496))]
   \<and> sum_list (map amount tenths_food) = Finite (10808639105689191 / 36028797018963968)
   \<and> category_spending float_arith tenths_food \<noteq> [(''Food'', sum_list (map amount tenths_food))]"
proof -
  have c: "category_spending float_arith tenths_food
     = [(''Food'', Finite (1351079888211149 / 4503599627370496))]"
    by (simp add: tenths_food_def tx_def summary_eval)
  have s: "sum_list (map amount tenths_food) = Finite (10808639105689191 / 36028797018963968)"
    by (simp add: tenths_food_def tx_def exact_sum_eval fl_values)
  show ?thesis
    unfolding c s by simp
qed

subsection \<open>The spreadsheet\<close>

lemma write_rows_result:
  "(\<exists>ws. write_rows rs = Inr ws \<and> length ws = length rs \<and> map Amount ws = map Amount rs)
   \<or> write_rows rs = Inl IllegalCharacterError"
proof (induction rs)
  case Nil
  show ?case by simp
next
  case (Cons r rs)
  have w: "(\<exists>r'. write_row r = Inr r' \<and> Amount r' = Amount r)
           \<or> write_row r = Inl IllegalCharacterError"
    by (auto simp: write_row_def check_string_def split: option.splits)
  from w Cons show ?case by auto
qed


lemma export_excel_body:
  assumes "export_excel now ts = Inr x"
  shows "length (rows (transactions_sheet x)) = length ts
         \<and> map Amount (rows (transactions_sheet x)) = map amount ts"
proof -
  from assms obtain ws where w: "write_rows (excel_data ts) = Inr ws"
    and x: "rows (transactions_sheet x) = ws"
    by (auto simp: export_excel_def Let_def split: sum.splits)
  from w write_rows_result [of "excel_data ts"]
  have "length ws = length (excel_data ts) \<and> map Amount ws = map Amount (excel_data ts)"
    by auto
  then show ?thesis
    by (simp add: x excel_data_def comp_def)
qed


lemmas excel_eval = export_excel_def excel_data_def write_row_def check_string_def
  illegal_character_def summary_data_def strftime_Ymd_def strftime_Ymd_compact_def zero_pad_def
  digits.simps digit_char_def capitalize_def ascii_upper_def ascii_lower_def py_sum_def
  float_arith_def Let_def fl_values




subsection \<open>The Description cell of the PDF table\<close>

text \<open>
  For a description that is not null the cell is the description itself when it has
  at most 30 characters, and its first 30 characters followed by \<^verbatim>\<open>...\<close> otherwise.
\<close>

lemma pdf_description_Some:
  "pdf_description (Some s) = Inr (if 30 < length s then take 30 s @ ''...'' else s)"
  by (simp add: pdf_description_def)

lemma pdf_description_31:
  "pdf_description (Some ''abcdefghijklmnopqrstuvwxyz01234'') = Inr ''abcdefghijklmnopqrstuvwxyz0123...''"
  by (simp add: pdf_description_def)

lemma pdf_description_30:
  "pdf_description (Some ''abcdefghijklmnopqrstuvwxyz0123'') = Inr ''abcdefghijklmnopqrstuvwxyz0123''"
  by (simp add: pdf_description_def)

text \<open>
  Claim C4. The claim asks for an empty Description cell when the description is
  null. The code evaluates \<^verbatim>\<open>len(t.description)\<close> first, which raises
  \<^verbatim>\<open>TypeError\<close> on \<^verbatim>\<open>None\<close>: the cell is not produced and the export of a list
  holding such a transaction fails.
\<close>

theorem pdf_description_null_raises:
  "pdf_description None = Inl TypeError
   \<and> export_pdf name now null_description_example = Inl TypeError"
  by (simp add: pdf_description_def export_pdf_def null_description_example_def tx_def)

subsection \<open>Body rows of the exports\<close>

text \<open>
  The Transactions sheet of an exported workbook has one row per transaction, in
  input order. The PDF table has one body row per transaction when no description is
  null, and the export of the empty list succeeds with the header row alone.
\<close>

lemma pdf_rows_non_null:
  "list_all (\<lambda>t. description t \<noteq> None) ts \<Longrightarrow>
   \<exists>body. pdf_rows ts = Inr body \<and> length body = length ts"
proof (induction ts)
  case Nil
  show ?case by simp
next
  case (Cons t ts)
  then obtain s where s: "description t = Some s" by auto
  from Cons obtain body where "pdf_rows ts = Inr body" "length body = length ts" by auto
  with s show ?case by (simp add: pdf_description_def)
qed

lemma export_pdf_empty:
  "\<exists>doc. export_pdf name now [] = Inr doc
     \<and> data doc = [[''Date'', ''Type'', ''Category'', ''Amount'', ''Description'']]"
  by (simp add: export_pdf_def)

lemma export_excel_empty:
  "\<exists>x. export_excel now [] = Inr x \<and> rows (transactions_sheet x) = []
     \<and> rows (summary_sheet x) =
         [(''Total Income'', Finite 0), (''Total Expense'', Finite 0), (''Balance'', Finite 0)]"
  by (simp add: excel_eval)

text \<open>
  Claim C7. The claim asks for one body row per transaction in both exports, for
  every list. On a list of two transactions of which one has a null description the
  Transactions sheet has its two rows, but the PDF export raises \<^verbatim>\<open>TypeError\<close> and
  produces no document.
\<close>

theorem pdf_export_fails_on_null_description:
  "(\<exists>x. export_excel now mixed_description_example = Inr x
      \<and> length (rows (transactions_sheet x)) = 2)
   \<and> export_pdf name now mixed_description_example = Inl TypeError"
  by (simp add: excel_eval export_pdf_def pdf_description_def
      mixed_description_example_def tx_def)

subsection \<open>The worked example\<close>

text \<open>
  Claim C8. An income of 1000 on 2024-01-15, an expense of 50 in Food on 2024-01-20
  and an expense of 30 in Food on 2024-02-01 give the totals 1000, 80 and 920, the
  breakdown Food: 80, and the series 2024-01 (1000, 50), 2024-02 (0, 30), whatever
  the other columns hold; the floats and exact arithmetic agree here.
\<close>

theorem summary_worked_example:
  "get_summary float_arith
     [\<lparr>tid = i1, user_id = u1, type = ''income'', category = c1, amount = Finite 1000,
       description = d1, date = \<lparr>dt_year = 2024, dt_month = 1, dt_day = 15\<rparr>, created_at = ca1\<rparr>,
      \<lparr>tid = i2, user_id = u2, type = ''expense'', category = ''Food'', amount = Finite 50,
       description = d2, date = \<lparr>dt_year = 2024, dt_month = 1, dt_day = 20\<rparr>, created_at = ca2\<rparr>,
      \<lparr>tid = i3, user_id = u3, type = ''expense'', category = ''Food'', amount = Finite 30,
       description = d3, date = \<lparr>dt_year = 2024, dt_month = 2, dt_day = 1\<rparr>, created_at = ca3\<rparr>]
   = Inr \<lparr>r_total_income = Finite 1000, r_total_expense = Finite 80, r_balance = Finite 920,
          r_category_spending = [(''Food'', Finite 80)],
          r_monthly_summary =
            [\<lparr>income = Finite 1000, expense = Finite 50, month = ''2024-01''\<rparr>,
             \<lparr>income = Finite 0, expense = Finite 30, month = ''2024-02''\<rparr>],
          r_transaction_count = 3\<rparr>
   \<and> get_summary exact_arith
     [\<lparr>tid = i1, user_id = u1, type = ''income'', category = c1, amount = Finite 1000,
       description = d1, date = \<lparr>dt_year = 2024, dt_month = 1, dt_day = 15\<rparr>, created_at = ca1\<rparr>,
      \<lparr>tid = i2, user_id = u2, type = ''expense'', category = ''Food'', amount = Finite 50,
       description = d2, date = \<lparr>dt_year = 2024, dt_month = 1, dt_day = 20\<rparr>, created_at = ca2\<rparr>,
      \<lparr>tid = i3, user_id = u3, type = ''expense'', category = ''Food'', amount = Finite 30,
       description = d3, date = \<lparr>dt_year = 2024, dt_month = 2, dt_day = 1\<rparr>, created_at = ca3\<rparr>]
   = Inr \<lparr>r_total_income = Finite 1000, r_total_expense = Finite 80, r_balance = Finite 920,
          r_category_spending = [(''Food'', Finite 80)],
          r_monthly_summary =
            [\<lparr>income = Finite 1000, expense = Finite 50, month = ''2024-01''\<rparr>,
             \<lparr>income = Finite 0, expense = Finite 30, month = ''2024-02''\<rparr>],
          r_transaction_count = 3\<rparr>"
  by (simp add: summary_eval)

subsection \<open>Order of retrieval\<close>

text \<open>
  Claim C9. Under exact arithmetic, two lists with the same transactions in a
  different order give the same reported totals, the same category mapping, the same
  monthly series and the same transaction count.
\<close>

theorem summary_permutation_invariant:
  assumes "mset ts = mset ts'"
  shows "\<exists>r r'. get_summary exact_arith ts = Inr r \<and> get_summary exact_arith ts' = Inr r'
           \<and> r_total_income r = r_total_income r'
           \<and> r_total_expense r = r_total_expense r'
           \<and> r_balance r = r_balance r'
           \<and> map_of (r_category_spending r) = map_of (r_category_spending r')
           \<and> r_monthly_summary r = r_monthly_summary r'
           \<and> r_transaction_count r = r_transaction_count r'"
proof -
  have i: "total_income exact_arith ts = total_income exact_arith ts'"
    unfolding total_income_sum py_sum_exact filtered_sum_mset by (simp only: assms)
  have x: "total_expense exact_arith ts = total_expense exact_arith ts'"
    unfolding total_expense_sum py_sum_exact filtered_sum_mset by (simp only: assms)
  have b: "balance exact_arith ts = balance exact_arith ts'"
    by (simp only: balance_def i x)
  have c: "map_of (category_spending exact_arith ts) = map_of (category_spending exact_arith ts')"
    using assms by (rule category_map_mset)
  have k: "month_keys ts = month_keys ts'"
    using assms by (rule month_keys_mset)
  have r: "month_row exact_arith ts = month_row exact_arith ts'"
    using month_row_mset [OF assms] by (simp only: fun_eq_iff) simp
  have l: "length ts = length ts'"
    using assms by (rule mset_eq_length)
  show ?thesis
    by (simp add: get_summary_eq i x b c k r l)
qed

theorem summary_permutation_invariant_witness:
  "mset two_expenses = mset (rev two_expenses)
   \<and> (\<exists>r r'. get_summary exact_arith two_expenses = Inr r
           \<and> get_summary exact_arith (rev two_expenses) = Inr r'
           \<and> r_total_income r = r_total_income r'
           \<and> r_total_expense r = r_total_expense r'
           \<and> r_balance r = r_balance r'
           \<and> map_of (r_category_spending r) = map_of (r_category_spending r')
           \<and> r_monthly_summary r = r_monthly_summary r'
           \<and> r_transaction_count r = r_transaction_count r')"
proof -
  have h: "mset two_expenses = mset (rev two_expenses)" by simp
  from h summary_permutation_invariant [OF h] show ?thesis by (rule conjI)
qed

text \<open>The dicts themselves may list the labels in a different order.\<close>

lemma two_expenses_order:
  "category_spending exact_arith two_expenses = [(''Food'', Finite 50), (''Rent'', Finite 30)]
   \<and> category_spending exact_arith (rev two_expenses) = [(''Rent'', Finite 30), (''Food'', Finite 50)]"
  by (simp add: two_expenses_def tx_def category_spending_def category_step_def dict_get_def
      exact_arith_def)

subsection \<open>Sums over the monthly series\<close>

lemma thirteen_months_series:
  "\<exists>r. get_summary float_arith thirteen_months = Inr r
     \<and> map income (r_monthly_summary r) =
         [Finite 10, Finite 10, Finite 10, Finite 10, Finite 10, Finite 10, Finite 10, Finite 10,
          Finite 10, Finite 10, Finite 0, Finite 10]
     \<and> map expense (r_monthly_summary r) =
         [Finite 0, Finite 0, Finite 0, Finite 0, Finite 0, Finite 0, Finite 0, Finite 0,
          Finite 0, Finite 0, Finite 7, Finite 0]"
  by (simp add: thirteen_months_def tx_def summary_eval)

lemma thirteen_months_card: "card (month_keys thirteen_months) = 13"
  by (simp add: thirteen_months_def tx_def month_keys_def strftime_Ym_def zero_pad_def
      digits.simps digit_char_def)

lemma thirteen_months_totals:
  "total_income float_arith thirteen_months = Finite 210
   \<and> total_expense float_arith thirteen_months = Finite 47"
  by (simp add: thirteen_months_def tx_def total_income_def total_expense_def py_sum_def
      float_arith_def fl_values)

lemma thirteen_months_kinds:
  "list_all (\<lambda>t. type t = ''income'' \<or> type t = ''expense'') thirteen_months"
  by (simp add: thirteen_months_def tx_def)

lemma series_sums:
  "py_sum float_arith
     [Finite 10, Finite 10, Finite 10, Finite 10, Finite 10, Finite 10, Finite 10, Finite 10,
      Finite 10, Finite 10, Finite 0, Finite 10] = Finite 110
   \<and> py_sum float_arith
     [Finite 0, Finite 0, Finite 0, Finite 0, Finite 0, Finite 0, Finite 0, Finite 0,
      Finite 0, Finite 0, Finite 7, Finite 0] = Finite 7"
  by (simp add: py_sum_def float_arith_def fl_values)

text \<open>
  Claim C10, as the code has it. Under exact arithmetic, when every type is
  \<^verbatim>\<open>income\<close> or \<^verbatim>\<open>expense\<close> and there are at most twelve distinct months, the income
  values of the series add up to the unrounded total income and the expense values to
  the unrounded total expense. With thirteen months the first month is dropped, and
  both sums of the series are strictly smaller than the totals.
\<close>

theorem monthly_series_sums:
  "((\<forall>t\<in>set ts. type t = ''income'' \<or> type t = ''expense'') \<and> card (month_keys ts) \<le> 12 \<longrightarrow>
      (\<exists>r. get_summary exact_arith ts = Inr r
         \<and> sum_list (map income (r_monthly_summary r)) = total_income exact_arith ts
         \<and> sum_list (map expense (r_monthly_summary r)) = total_expense exact_arith ts))
   \<and> list_all (\<lambda>t. type t = ''income'' \<or> type t = ''expense'') thirteen_months
   \<and> 12 < card (month_keys thirteen_months)
   \<and> (\<exists>r. get_summary float_arith thirteen_months = Inr r
         \<and> py_sum float_arith (map income (r_monthly_summary r)) = Finite 110
         \<and> total_income float_arith thirteen_months = Finite 210
         \<and> py_sum float_arith (map expense (r_monthly_summary r)) = Finite 7
         \<and> total_expense float_arith thirteen_months = Finite 47)
   \<and> (110 :: rat) < 210 \<and> (7 :: rat) < 47"
proof -
  have a: "\<exists>r. get_summary exact_arith ts = Inr r
         \<and> sum_list (map income (r_monthly_summary r)) = total_income exact_arith ts
         \<and> sum_list (map expense (r_monthly_summary r)) = total_expense exact_arith ts"
    if k: "\<forall>t\<in>set ts. type t = ''income'' \<or> type t = ''expense''"
      and c: "card (month_keys ts) \<le> 12"
  proof -
    have i: "sum_list (map income (map (month_row exact_arith ts)
                        (last12 (sorted_list_of_set (month_keys ts)))))
             = total_income exact_arith ts"
      using series_income_total [OF c] by (simp only: total_income_sum py_sum_exact)
    have x: "sum_list (map expense (map (month_row exact_arith ts)
                        (last12 (sorted_list_of_set (month_keys ts)))))
             = total_expense exact_arith ts"
      using series_expense_total [OF c] non_income_is_expense [OF k]
      by (simp only: total_expense_sum py_sum_exact)
    show ?thesis
      using i x by (simp add: get_summary_eq)
  qed
  have b: "12 < card (month_keys thirteen_months)"
    by (simp add: thirteen_months_card)
  have c: "\<exists>r. get_summary float_arith thirteen_months = Inr r
         \<and> py_sum float_arith (map income (r_monthly_summary r)) = Finite 110
         \<and> total_income float_arith thirteen_months = Finite 210
         \<and> py_sum float_arith (map expense (r_monthly_summary r)) = Finite 7
         \<and> total_expense float_arith thirteen_months = Finite 47"
    using thirteen_months_series by (auto simp: thirteen_months_totals series_sums)
  show ?thesis
    using a b c thirteen_months_kinds by simp
qed

theorem monthly_series_sums_witness:
  "list_all (\<lambda>t. type t = ''income'' \<or> type t = ''expense'') two_months
   \<and> card (month_keys two_months) = 2
   \<and> total_income exact_arith two_months = Finite 1200
   \<and> total_expense exact_arith two_months = Finite 780
   \<and> (\<exists>r. get_summary exact_arith two_months = Inr r
         \<and> map income (r_monthly_summary r) = [Finite 1200, Finite 0]
         \<and> map expense (r_monthly_summary r) = [Finite 50, Finite 730]
         \<and> sum_list (map income (r_monthly_summary r)) = total_income exact_arith two_months
         \<and> sum_list (map expense (r_monthly_summary r)) = total_expense exact_arith two_months)"
proof -
  have k: "list_all (\<lambda>t. type t = ''income'' \<or> type t = ''expense'') two_months"
    by (simp add: two_months_def tx_def)
  then have k': "\<forall>t\<in>set two_months. type t = ''income'' \<or> type t = ''expense''"
    by (simp only: list_all_iff)
  have c: "card (month_keys two_months) = 2"
    by (simp add: two_months_def tx_def month_keys_def strftime_Ym_def zero_pad_def
        digits.simps digit_char_def)
  then have c': "card (month_keys two_months) \<le> 12" by simp
  have t: "total_income exact_arith two_months = Finite 1200
         \<and> total_expense exact_arith two_months = Finite 780"
    by (simp add: two_months_def tx_def total_income_def total_expense_def py_sum_def
        exact_arith_def)
  have s: "\<exists>r. get_summary exact_arith two_months = Inr r
         \<and> map income (r_monthly_summary r) = [Finite 1200, Finite 0]
         \<and> map expense (r_monthly_summary r) = [Finite 50, Finite 730]"
    by (simp add: two_months_def tx_def summary_eval)
  note m = monthly_series_sums [of two_months, THEN conjunct1]
  from m k' c' have "\<exists>r. get_summary exact_arith two_months = Inr r
         \<and> sum_list (map income (r_monthly_summary r)) = total_income exact_arith two_months
         \<and> sum_list (map expense (r_monthly_summary r)) = total_expense exact_arith two_months"
    by blast
  with s have "\<exists>r. get_summary exact_arith two_months = Inr r
         \<and> map income (r_monthly_summary r) = [Finite 1200, Finite 0]
         \<and> map expense (r_monthly_summary r) = [Finite 50, Finite 730]
         \<and> sum_list (map income (r_monthly_summary r)) = total_income exact_arith two_months
         \<and> sum_list (map expense (r_monthly_summary r)) = total_expense exact_arith two_months"
    by auto
  with k c t show ?thesis by (intro conjI) simp_all
qed

text \<open>
  With the incomes 0.1 and 0.4 in January and 0.1 in February the series holds 0.5
  and 0.1, which add up to 0.6, while the total income is the next float above 0.6.
\<close>

theorem monthly_series_sum_differs:
  "map type tenths_incomes = [''income'', ''income'', ''income'']
   \<and> card (month_keys tenths_incomes) = 2
   \<and> get_summary float_arith tenths_incomes =
       Inr \<lparr>r_total_income = fl (3 / 5), r_total_expense = Finite 0, r_balance = fl (3 / 5),
            r_category_spending = [],
            r_monthly_summary =
              [\<lparr>income = Finite (1 / 2), expense = Finite 0, month = ''2024-01''\<rparr>,
               \<lparr>income = fl (1 / 10), expense = Finite 0, month = ''2024-02''\<rparr>],
            r_transaction_count = 3\<rparr>
   \<and> total_income float_arith tenths_incomes = Finite (1351079888211149 / 2251799813685248)
   \<and> py_sum float_arith [Finite (1 / 2), fl (1 / 10)]
       = Finite (5404319552844595 / 9007199254740992)
   \<and> py_sum float_arith [Finite (1 / 2), fl (1 / 10)] \<noteq> total_income float_arith tenths_incomes
   \<and> sum_list [Finite (1 / 2), fl (1 / 10)] \<noteq> total_income float_arith tenths_incomes"
proof -
  have k: "map type tenths_incomes = [''income'', ''income'', ''income'']"
    by (simp add: tenths_incomes_def tx_def)
  have c: "card (month_keys tenths_incomes) = 2"
    unfolding month_keys_def image_set card_set
    by (simp add: tenths_incomes_def tx_def strftime_Ym_def zero_pad_def
        digits.simps digit_char_def)
  have g: "get_summary float_arith tenths_incomes =
       Inr \<lparr>r_total_income = fl (3 / 5), r_total_expense = Finite 0, r_balance = fl (3 / 5),
            r_category_spending = [],
            r_monthly_summary =
              [\<lparr>income = Finite (1 / 2), expense = Finite 0, month = ''2024-01''\<rparr>,
               \<lparr>income = fl (1 / 10), expense = Finite 0, month = ''2024-02''\<rparr>],
            r_transaction_count = 3\<rparr>"
    by (simp add: tenths_incomes_def tx_def summary_eval)
  have t: "total_income float_arith tenths_incomes
           = Finite (1351079888211149 / 2251799813685248)"
    by (simp add: tenths_incomes_def tx_def summary_eval)
  have p: "py_sum float_arith [Finite (1 / 2), fl (1 / 10)]
       = Finite (5404319552844595 / 9007199254740992)"
    by (simp add: py_sum_def float_arith_def fl_values)
  have s: "sum_list [Finite (1 / 2), fl (1 / 10)]
       = Finite (21617278211378381 / 36028797018963968)"
    by (simp add: exact_sum_eval fl_values)
  show ?thesis
    unfolding t p s by (intro conjI) (simp_all add: k c g)
qed

end
